theory Spec2Isabelle
  imports Main
begin

section \<open>Go primitives used by the rate limiter\<close>

text \<open>
  Go's \<open>int\<close> is taken as the 64-bit two's complement integer of the 64-bit build
  targets. The model keeps values as \<open>int\<close> and writes the wrap-around out:
  \<open>wrap64\<close> maps a mathematical result to the value the machine stores.
\<close>

definition wrap64 :: "int \<Rightarrow> int" where
  "wrap64 x = (x + 9223372036854775808) mod 18446744073709551616 - 9223372036854775808"

definition go_add :: "int \<Rightarrow> int \<Rightarrow> int" where
  "go_add a b = wrap64 (a + b)"

definition go_sub :: "int \<Rightarrow> int \<Rightarrow> int" where
  "go_sub a b = wrap64 (a - b)"

definition go_mul :: "int \<Rightarrow> int \<Rightarrow> int" where
  "go_mul a b = wrap64 (a * b)"

text \<open>Division that truncates towards zero, as Go's \<open>/\<close> on integers and its
  conversion of a float to an integer do.\<close>

definition tdiv :: "int \<Rightarrow> int \<Rightarrow> int" where
  "tdiv a b = (if (a < 0) = (b < 0) then \<bar>a\<bar> div \<bar>b\<bar> else - (\<bar>a\<bar> div \<bar>b\<bar>))"

text \<open>
  A clock reading (\<open>time.Now()\<close>) is a number of nanoseconds; a \<open>time.Duration\<close>
  is a signed 64-bit number of nanoseconds. \<open>Time.Sub\<close> saturates at the largest and
  smallest duration.
\<close>

type_synonym go_time = int
type_synonym duration = int

definition Second :: duration where
  "Second = 1000000000"

definition maxDuration :: duration where
  "maxDuration = 9223372036854775807"

definition minDuration :: duration where
  "minDuration = - 9223372036854775808"

definition time_Sub :: "go_time \<Rightarrow> go_time \<Rightarrow> duration" where
  "time_Sub t u =
     (let d = t - u in
      if d > maxDuration then maxDuration
      else if d < minDuration then minDuration
      else d)"

definition time_Add :: "go_time \<Rightarrow> duration \<Rightarrow> go_time" where
  "time_Add t d = t + d"

text \<open>
  \<open>int(elapsed.Seconds())\<close>: the whole seconds of a duration, truncated towards zero.
  \<open>Seconds\<close> goes through a float64, and the definition gives the value the code
  computes for every duration shorter than \<open>2^22\<close> seconds (48 days); from about
  \<open>2^24\<close> seconds on, the float64 sum of a duration that ends less than a few
  nanoseconds before a full second rounds up to that second. A statement that gives the
  value of \<open>seconds_int\<close> carries the bound.
\<close>

definition seconds_int :: "duration \<Rightarrow> int" where
  "seconds_int d = tdiv d Second"

section \<open>TokenBucket (ratelimit/token_bucket.go)\<close>

text \<open>
  The struct without its mutex, ticker and stop channel: every method below runs under
  the mutex, so each is one atomic step on the fields. The clock reading a method takes
  with \<open>time.Now()\<close> is its first argument.
\<close>

record TokenBucket =
  capacity :: int
  tokens :: int
  refillRate :: int
  lastRefill :: go_time

definition NewTokenBucket :: "go_time \<Rightarrow> int \<Rightarrow> int \<Rightarrow> TokenBucket" where
  "NewTokenBucket now cap rate =
     \<lparr>capacity = cap, tokens = cap, refillRate = rate, lastRefill = now\<rparr>"

text \<open>\<open>refill\<close>, the body the background ticker runs once per tick.\<close>

definition refill :: "go_time \<Rightarrow> TokenBucket \<Rightarrow> TokenBucket" where
  "refill now tb =
     (let elapsed = time_Sub now (lastRefill tb);
          tokensToAdd = go_mul (seconds_int elapsed) (refillRate tb)
      in if tokensToAdd > 0
         then (let t = go_add (tokens tb) tokensToAdd;
                   t' = (if t > capacity tb then capacity tb else t)
               in tb\<lparr>tokens := t', lastRefill := now\<rparr>)
         else tb)"

text \<open>\<open>TryConsume\<close> repeats the refill inline and then tries to take \<open>n\<close> tokens.\<close>

definition TryConsume :: "go_time \<Rightarrow> int \<Rightarrow> TokenBucket \<Rightarrow> bool \<times> TokenBucket" where
  "TryConsume now n tb =
     (let elapsed = time_Sub now (lastRefill tb);
          tokensToAdd = go_mul (seconds_int elapsed) (refillRate tb);
          tb1 = (if tokensToAdd > 0
                 then (let t = go_add (tokens tb) tokensToAdd;
                           t' = (if t > capacity tb then capacity tb else t)
                       in tb\<lparr>tokens := t', lastRefill := now\<rparr>)
                 else tb)
      in if tokens tb1 \<ge> n
         then (True, tb1\<lparr>tokens := go_sub (tokens tb1) n\<rparr>)
         else (False, tb1))"

text \<open>\<open>GetTokens\<close> repeats the refill inline and returns the balance.\<close>

definition GetTokens :: "go_time \<Rightarrow> TokenBucket \<Rightarrow> int \<times> TokenBucket" where
  "GetTokens now tb =
     (let elapsed = time_Sub now (lastRefill tb);
          tokensToAdd = go_mul (seconds_int elapsed) (refillRate tb);
          tb1 = (if tokensToAdd > 0
                 then (let t = go_add (tokens tb) tokensToAdd;
                           t' = (if t > capacity tb then capacity tb else t)
                       in tb\<lparr>tokens := t', lastRefill := now\<rparr>)
                 else tb)
      in (tokens tb1, tb1))"

definition GetCapacity :: "TokenBucket \<Rightarrow> int" where
  "GetCapacity tb = capacity tb"

definition GetRefillRate :: "TokenBucket \<Rightarrow> int" where
  "GetRefillRate tb = refillRate tb"

section \<open>Floating point values\<close>

text \<open>
  The float64 values the limiter computes are quotients and sums of integers. The model
  keeps them as exact fractions \<open>F a b\<close> (numerator, denominator); a denominator
  \<open>0\<close> stands for the values that are not finite (\<open>+Inf\<close>, \<open>-Inf\<close>, \<open>NaN\<close>,
  told apart by the sign of the numerator). The fractions agree with the machine's
  doubles while the integers involved stay below \<open>2^53\<close>.
\<close>

datatype f64 = F int int

definition f64_of_int :: "int \<Rightarrow> f64" where
  "f64_of_int a = F a 1"

fun f64_div :: "f64 \<Rightarrow> f64 \<Rightarrow> f64" where
  "f64_div (F a b) (F c d) = F (a * d) (b * c)"

fun f64_add :: "f64 \<Rightarrow> f64 \<Rightarrow> f64" where
  "f64_add (F a b) (F c d) = F (a * d + c * b) (b * d)"

text \<open>
  Converting a float64 to \<open>int64\<close> truncates towards zero. For a value that is not
  finite or does not fit, Go leaves the result to the platform: \<open>oor\<close> is that result.
\<close>

fun f64_to_int64 :: "(f64 \<Rightarrow> int) \<Rightarrow> f64 \<Rightarrow> int" where
  "f64_to_int64 oor (F a b) =
     (if b = 0 then oor (F a b)
      else (let q = tdiv a b
            in if q < - 9223372036854775808 \<or> q > 9223372036854775807
               then oor (F a b) else q))"

text \<open>Lua's \<open>math.floor\<close> on a finite number.\<close>

fun math_floor :: "f64 \<Rightarrow> int" where
  "math_floor (F a b) = (if b < 0 then (- a) div (- b) else a div b)"

text \<open>\<open>Duration.Seconds\<close>: whole seconds plus the nanosecond remainder over \<open>1e9\<close>.\<close>

definition Seconds :: "duration \<Rightarrow> f64" where
  "Seconds d =
     (let sec = tdiv d Second;
          nsec = d - sec * Second
      in f64_add (f64_of_int sec) (f64_div (f64_of_int nsec) (F 1000000000 1)))"

text \<open>\<open>Time.Unix\<close>: the seconds since the epoch of a clock reading.\<close>

definition Unix :: "go_time \<Rightarrow> int" where
  "Unix t = t div Second"

text \<open>\<open>time.Unix(sec, 0)\<close>: the clock reading of a number of seconds.\<close>

definition time_Unix :: "int \<Rightarrow> go_time" where
  "time_Unix sec = sec * Second"

section \<open>Formatting numbers (strconv, fmt)\<close>

definition digit_char :: "nat \<Rightarrow> char" where
  "digit_char d = ''0123456789'' ! d"

function digits :: "nat \<Rightarrow> string" where
  "digits n = (if n < 10 then [digit_char n] else digits (n div 10) @ [digit_char (n mod 10)])"
  by pat_completeness auto
termination
  by (relation "measure (\<lambda>n. n)") auto

declare digits.simps [simp del]

text \<open>\<open>strconv.Itoa\<close>, \<open>strconv.FormatInt(_, 10)\<close> and the verb \<open>%d\<close>.\<close>

definition Itoa :: "int \<Rightarrow> string" where
  "Itoa i = (if i < 0 then ''-'' @ digits (nat (- i)) else digits (nat i))"

text \<open>Rounding a non-negative fraction \<open>a / b\<close> (\<open>b > 0\<close>) to the nearest integer,
  a tie going to the even one.\<close>

definition round_half_even :: "int \<Rightarrow> int \<Rightarrow> int" where
  "round_half_even a b =
     (let q = a div b; r = a mod b
      in if 2 * r < b then q
         else if 2 * r > b then q + 1
         else if even q then q else q + 1)"

text \<open>\<open>strconv.FormatFloat(x, 'f', 0, 64)\<close> and the verb \<open>%.0f\<close>.\<close>

fun FormatFloat_f0 :: "f64 \<Rightarrow> string" where
  "FormatFloat_f0 (F a b) =
     (if b = 0 then (if a > 0 then ''+Inf'' else if a < 0 then ''-Inf'' else ''NaN'')
      else (if ((a < 0) \<noteq> (b < 0)) \<and> a \<noteq> 0 then ''-'' else [])
           @ digits (nat (round_half_even \<bar>a\<bar> \<bar>b\<bar>)))"

section \<open>What the model takes from outside the repository\<close>

text \<open>
  The Redis server's table of a script's state, and the functions of the standard
  library and of the Redis client that the code calls and whose sources are not part of
  the repository. They are parameters of the model.
\<close>

record lua_bucket =
  bucket_tokens :: int
  bucket_last_refill :: int

datatype lua_value = LuaBoolean bool | LuaNumber f64

datatype go_value =
    GoInt64 int
  | GoFloat64 f64
  | GoBool bool
  | GoString string
  | GoNil
  | GoSlice "go_value list"

record RedisBucketData =
  Tokens :: int
  LastRefill :: go_time

record platform =
  f64_oor :: "f64 \<Rightarrow> int"
    \<comment> \<open>the \<open>int64\<close> a float64 converts to when it is not finite or out of range\<close>
  format_RFC3339 :: "go_time \<Rightarrow> string"
    \<comment> \<open>\<open>Time.Format(time.RFC3339)\<close>\<close>
  parse_RFC3339 :: "string \<Rightarrow> go_time"
    \<comment> \<open>\<open>time.Parse(time.RFC3339, s)\<close>, its error dropped\<close>
  format_Z :: "go_time \<Rightarrow> string"
    \<comment> \<open>\<open>Time.Format("2006-01-02T15:04:05Z")\<close>\<close>
  SplitHostPort :: "string \<Rightarrow> (string \<times> string) option"
    \<comment> \<open>\<open>net.SplitHostPort\<close>; \<open>None\<close> is its error\<close>
  eval_result :: "lua_value list \<Rightarrow> go_value"
    \<comment> \<open>the Go value \<open>Eval(...).Result()\<close> holds for the table a script returns\<close>
  json_Unmarshal :: "lua_bucket \<Rightarrow> string + RedisBucketData"
    \<comment> \<open>\<open>json.Unmarshal\<close> of a stored bucket into \<open>RedisBucketData\<close>; \<open>Inl\<close> is its error\<close>

text \<open>
  A call to the Redis server either goes through, or fails with an error before the
  server ran the command, or fails (a timeout, a lost connection) after it did.
\<close>

datatype redis_fault = NoFault | FailBefore string | FailAfter string

text \<open>The clock readings one request takes, in the order the code takes them.\<close>

record clock =
  now_create :: go_time
  now_consume :: go_time
  now_read :: go_time
  now_reset :: go_time

section \<open>RateLimiter (ratelimit/token_bucket.go)\<close>

record RateLimitConfig =
  Capacity :: int
  RefillRate :: int
  Window :: duration

definition DefaultRateLimitConfig :: RateLimitConfig where
  "DefaultRateLimitConfig = \<lparr>Capacity = 100, RefillRate = 10, Window = 60 * Second\<rparr>"

record RateLimiter =
  buckets :: "string \<rightharpoonup> TokenBucket"
  config :: RateLimitConfig

definition NewRateLimiter :: "RateLimitConfig option \<Rightarrow> RateLimiter" where
  "NewRateLimiter c =
     \<lparr>buckets = Map.empty,
      config = (case c of None \<Rightarrow> DefaultRateLimitConfig | Some c' \<Rightarrow> c')\<rparr>"

text \<open>\<open>GetBucket\<close> returns the key's bucket and the limiter, which holds a new full
  bucket when the key had none.\<close>

definition GetBucket :: "go_time \<Rightarrow> string \<Rightarrow> RateLimiter \<Rightarrow> TokenBucket \<times> RateLimiter" where
  "GetBucket now key rl =
     (case buckets rl key of
        Some bucket \<Rightarrow> (bucket, rl)
      | None \<Rightarrow>
          (let bucket = NewTokenBucket now (Capacity (config rl)) (RefillRate (config rl))
           in (bucket, rl\<lparr>buckets := (buckets rl)(key \<mapsto> bucket)\<rparr>)))"

definition RateLimiter_Allow ::
  "clock \<Rightarrow> string \<Rightarrow> int \<Rightarrow> RateLimiter \<Rightarrow> bool \<times> RateLimiter" where
  "RateLimiter_Allow ck key n rl =
     (let (bucket, rl1) = GetBucket (now_create ck) key rl;
          (ok, bucket1) = TryConsume (now_consume ck) n bucket
      in (ok, rl1\<lparr>buckets := (buckets rl1)(key \<mapsto> bucket1)\<rparr>))"

definition RateLimiter_GetStatus ::
  "clock \<Rightarrow> string \<Rightarrow> RateLimiter \<Rightarrow> (int \<times> int \<times> int) \<times> RateLimiter" where
  "RateLimiter_GetStatus ck key rl =
     (let (bucket, rl1) = GetBucket (now_create ck) key rl;
          (t, bucket1) = GetTokens (now_read ck) bucket
      in ((t, GetCapacity bucket1, GetRefillRate bucket1),
          rl1\<lparr>buckets := (buckets rl1)(key \<mapsto> bucket1)\<rparr>))"

record RateLimitResult =
  Allowed :: bool
  Remaining :: int
  ResetTime :: go_time
  RetryAfter :: duration

definition CheckRateLimit ::
  "platform \<Rightarrow> clock \<Rightarrow> string \<Rightarrow> int \<Rightarrow> RateLimiter \<Rightarrow> RateLimitResult \<times> RateLimiter" where
  "CheckRateLimit pf ck key n rl =
     (let (bucket, rl1) = GetBucket (now_create ck) key rl;
          (allowed, bucket1) = TryConsume (now_consume ck) n bucket;
          (remaining, bucket2) = GetTokens (now_read ck) bucket1;
          cap = GetCapacity bucket2;
          rate = GetRefillRate bucket2;
          (resetTime, retryAfter) =
            (if \<not> allowed
             then (let tokensNeeded = go_sub n remaining;
                       secondsToWait = f64_div (f64_of_int tokensNeeded) (f64_of_int rate);
                       retryAfter = go_mul (f64_to_int64 (f64_oor pf) secondsToWait) Second
                   in (time_Add (now_reset ck) retryAfter, retryAfter))
             else (let secondsToFull =
                         f64_div (f64_of_int (go_sub cap remaining)) (f64_of_int rate)
                   in (time_Add (now_reset ck)
                         (go_mul (f64_to_int64 (f64_oor pf) secondsToFull) Second), 0)))
      in (\<lparr>Allowed = allowed, Remaining = remaining,
            ResetTime = resetTime, RetryAfter = retryAfter\<rparr>,
          rl1\<lparr>buckets := (buckets rl1)(key \<mapsto> bucket2)\<rparr>))"

section \<open>RedisRateLimiter (ratelimit/redis_limiter.go)\<close>

text \<open>
  The server's keys that hold a bucket. Every number the script stores is an integer:
  the capacity, the rate, the count and \<open>now\<close> arrive as decimal integers, and the
  script adds and subtracts them and the floor of a product of them. Lua computes in
  doubles and the stored bucket is written with 14 significant digits, so the definition
  gives what the script computes as long as every number involved has at most 14 digits;
  the statements that give a value the script computes run it on such numbers.
  The expiry the script sets (\<open>EX 3600\<close>) removes a key as \<open>Reset\<close> does.
\<close>

type_synonym redis_store = "string \<rightharpoonup> lua_bucket"

text \<open>The Lua script of \<open>Allow\<close>, which the server runs as one step: the table it
  returns and the store it leaves.\<close>

definition allow_script ::
  "string \<Rightarrow> int \<Rightarrow> int \<Rightarrow> int \<Rightarrow> int \<Rightarrow> redis_store \<Rightarrow> lua_value list \<times> redis_store" where
  "allow_script key cap rate n now store =
     (let bucket = (case store key of
                      Some data \<Rightarrow> data
                    | None \<Rightarrow> \<lparr>bucket_tokens = cap, bucket_last_refill = now\<rparr>);
          elapsed = now - bucket_last_refill bucket;
          tokensToAdd = math_floor (f64_of_int (elapsed * rate));
          t1 = bucket_tokens bucket + tokensToAdd;
          t2 = (if t1 > cap then cap else t1);
          allowed = (t2 \<ge> n);
          t3 = (if t2 \<ge> n then t2 - n else t2);
          bucket' = \<lparr>bucket_tokens = t3, bucket_last_refill = now\<rparr>;
          retryAfter = (if allowed then f64_of_int 0
                        else f64_div (f64_of_int (n - t3)) (f64_of_int rate));
          resetTime = (if allowed
                       then f64_add (f64_of_int now)
                              (f64_div (f64_of_int (cap - t3)) (f64_of_int rate))
                       else f64_add (f64_of_int now) retryAfter)
      in ([LuaBoolean allowed, LuaNumber (f64_of_int t3),
           LuaNumber resetTime, LuaNumber retryAfter],
          store(key \<mapsto> bucket')))"

text \<open>\<open>client.Eval(...).Result()\<close> with the script above.\<close>

definition redis_Eval ::
  "platform \<Rightarrow> redis_fault \<Rightarrow> string \<Rightarrow> int \<Rightarrow> int \<Rightarrow> int \<Rightarrow> int \<Rightarrow> redis_store
     \<Rightarrow> (string + go_value) \<times> redis_store" where
  "redis_Eval pf fault key cap rate n now store =
     (case fault of
        NoFault \<Rightarrow>
          (let (tbl, store') = allow_script key cap rate n now store
           in (Inr (eval_result pf tbl), store'))
      | FailBefore err \<Rightarrow> (Inl err, store)
      | FailAfter err \<Rightarrow> (Inl err, snd (allow_script key cap rate n now store)))"

text \<open>The type assertions \<open>v.(int64)\<close> and \<open>v.(float64)\<close> with the \<open>ok\<close> result
  dropped: the zero value when the type is another one.\<close>

definition as_int64 :: "go_value \<Rightarrow> int" where
  "as_int64 v = (case v of GoInt64 i \<Rightarrow> i | _ \<Rightarrow> 0)"

definition as_float64 :: "go_value \<Rightarrow> f64" where
  "as_float64 v = (case v of GoFloat64 x \<Rightarrow> x | _ \<Rightarrow> F 0 1)"

record RedisRateLimiter =
  config_redis :: RateLimitConfig

definition NewRedisRateLimiter :: "RateLimitConfig option \<Rightarrow> RedisRateLimiter" where
  "NewRedisRateLimiter c =
     \<lparr>config_redis = (case c of None \<Rightarrow> DefaultRateLimitConfig | Some c' \<Rightarrow> c')\<rparr>"

definition RedisRateLimiter_Allow ::
  "platform \<Rightarrow> redis_fault \<Rightarrow> go_time \<Rightarrow> RedisRateLimiter \<Rightarrow> string \<Rightarrow> int \<Rightarrow> redis_store
     \<Rightarrow> (string + RateLimitResult) \<times> redis_store" where
  "RedisRateLimiter_Allow pf fault tnow rl key n store =
     (let now = Unix tnow;
          (res, store') = redis_Eval pf fault key (Capacity (config_redis rl))
                            (RefillRate (config_redis rl)) n now store
      in case res of
           Inl err \<Rightarrow> (Inl (''redis rate limit check failed: '' @ err), store')
         | Inr result \<Rightarrow>
             (case result of
                GoSlice results \<Rightarrow>
                  (if length results \<noteq> 4 then (Inl ''invalid redis script result'', store')
                   else (let allowed = as_int64 (results ! 0);
                             remaining = as_int64 (results ! 1);
                             resetTimeUnix = as_float64 (results ! 2);
                             retryAfterFloat = as_float64 (results ! 3)
                         in (Inr \<lparr>Allowed = (allowed = 1),
                                  Remaining = remaining,
                                  ResetTime = time_Unix (f64_to_int64 (f64_oor pf) resetTimeUnix),
                                  RetryAfter =
                                    go_mul (f64_to_int64 (f64_oor pf) retryAfterFloat) Second\<rparr>,
                             store')))
              | _ \<Rightarrow> (Inl ''invalid redis script result'', store')))"

text \<open>\<open>GetStatus\<close>: a read of the key, \<open>redis.Nil\<close> when the server has none.\<close>

definition RedisRateLimiter_GetStatus ::
  "platform \<Rightarrow> redis_fault \<Rightarrow> go_time \<Rightarrow> RedisRateLimiter \<Rightarrow> string \<Rightarrow> redis_store
     \<Rightarrow> string + (int \<times> int \<times> int)" where
  "RedisRateLimiter_GetStatus pf fault tnow rl key store =
     (let cfg = config_redis rl in
      case fault of
        FailBefore err \<Rightarrow> Inl (''failed to get bucket status: '' @ err)
      | FailAfter err \<Rightarrow> Inl (''failed to get bucket status: '' @ err)
      | NoFault \<Rightarrow>
          (case store key of
             None \<Rightarrow> Inr (Capacity cfg, Capacity cfg, RefillRate cfg)
           | Some data \<Rightarrow>
               (case json_Unmarshal pf data of
                  Inl err \<Rightarrow> Inl (''failed to unmarshal bucket data: '' @ err)
                | Inr bucket \<Rightarrow>
                    (let elapsed = time_Sub tnow (LastRefill bucket);
                         tokensToAdd = go_mul (seconds_int elapsed) (RefillRate cfg);
                         t = go_add (Tokens bucket) tokensToAdd;
                         t' = (if t > Capacity cfg then Capacity cfg else t)
                     in Inr (t', Capacity cfg, RefillRate cfg)))))"

text \<open>\<open>Reset\<close>: \<open>DEL key\<close>; the error it returns, if any, and the store it leaves.\<close>

definition RedisRateLimiter_Reset ::
  "redis_fault \<Rightarrow> string \<Rightarrow> redis_store \<Rightarrow> string option \<times> redis_store" where
  "RedisRateLimiter_Reset fault key store =
     (case fault of
        NoFault \<Rightarrow> (None, store(key := None))
      | FailBefore err \<Rightarrow> (Some err, store)
      | FailAfter err \<Rightarrow> (Some err, store(key := None)))"

section \<open>RateLimitMiddleware (package ratelimit)\<close>

text \<open>
  A request is its header map and its peer address. A response writer is the list of the
  calls made on it so far; a handler is the list of calls it makes, given the writer and
  the request it is passed.
\<close>

record Request =
  Header :: "string \<rightharpoonup> string list"
  RemoteAddr :: string

datatype call =
    Header_Set string string
  | WriteHeader int
  | Write string

type_synonym ResponseWriter = "call list"
type_synonym Handler = "ResponseWriter \<Rightarrow> Request \<Rightarrow> call list"

definition ClientByIP :: int where "ClientByIP = 0"
definition ClientByJWTSubject :: int where "ClientByJWTSubject = 1"
definition ClientByAPIKey :: int where "ClientByAPIKey = 2"
definition ClientByUserID :: int where "ClientByUserID = 3"

record RateLimitMiddlewareConfig =
  Identifier :: int
  Config :: RateLimitConfig
  UseRedis :: bool
  SkipSuccessful :: bool
  SkipFailed :: bool
  CustomKeyFunc :: "(Request \<Rightarrow> string) option"

record RateLimitMiddleware =
  config_mw :: RateLimitMiddlewareConfig
  limiter :: RateLimiter
  redisLimiter :: "RedisRateLimiter option"

subsection \<open>net/http and strings\<close>

text \<open>
  \<open>textproto.CanonicalMIMEHeaderKey\<close>: a key made of header field bytes only gets an
  upper case letter first and after every hyphen and lower case letters elsewhere; any
  other key is left as it is.
\<close>

definition lower_letters :: string where
  "lower_letters = ''abcdefghijklmnopqrstuvwxyz''"

definition upper_letters :: string where
  "upper_letters = ''ABCDEFGHIJKLMNOPQRSTUVWXYZ''"

definition validHeaderFieldByte :: "char \<Rightarrow> bool" where
  "validHeaderFieldByte c =
     (c \<in> set (lower_letters @ upper_letters @ ''0123456789''
               @ [CHR 0x21, CHR 0x23, CHR 0x24, CHR 0x25, CHR 0x26, CHR 0x27, CHR 0x2A,
                  CHR 0x2B, CHR 0x2D, CHR 0x2E, CHR 0x5E, CHR 0x5F, CHR 0x60, CHR 0x7C,
                  CHR 0x7E]))"

definition to_upper :: "char \<Rightarrow> char" where
  "to_upper c = (case map_of (zip lower_letters upper_letters) c of Some u \<Rightarrow> u | None \<Rightarrow> c)"

definition to_lower :: "char \<Rightarrow> char" where
  "to_lower c = (case map_of (zip upper_letters lower_letters) c of Some l \<Rightarrow> l | None \<Rightarrow> c)"

fun canonical_bytes :: "bool \<Rightarrow> string \<Rightarrow> string" where
  "canonical_bytes upper [] = []"
| "canonical_bytes upper (c # cs) =
     (let c' = (if upper then to_upper c else to_lower c)
      in c' # canonical_bytes (c' = CHR 0x2D) cs)"

definition CanonicalMIMEHeaderKey :: "string \<Rightarrow> string" where
  "CanonicalMIMEHeaderKey s =
     (if list_all validHeaderFieldByte s then canonical_bytes True s else s)"

text \<open>\<open>Header.Get\<close>: the first value stored under the canonical form of the key, the
  empty string when there is none.\<close>

definition Header_Get :: "Request \<Rightarrow> string \<Rightarrow> string" where
  "Header_Get r k =
     (case Header r (CanonicalMIMEHeaderKey k) of Some (v # vs) \<Rightarrow> v | _ \<Rightarrow> [])"

fun Split :: "string \<Rightarrow> char \<Rightarrow> string list" where
  "Split [] sep = [[]]"
| "Split (c # cs) sep =
     (if c = sep then [] # Split cs sep
      else (case Split cs sep of
              [] \<Rightarrow> [[c]]
            | part # parts \<Rightarrow> (c # part) # parts))"

text \<open>
  The white space of \<open>unicode.IsSpace\<close>, each code point as the bytes of its UTF-8
  encoding: tab, line feed, vertical tab, form feed, carriage return, space, U+0085,
  U+00A0, U+1680, U+2000 to U+200A, U+2028, U+2029, U+202F, U+205F and U+3000.
\<close>

definition space_runes :: "string list" where
  "space_runes =
     [[CHR 0x09], [CHR 0x0A], [CHR 0x0B], [CHR 0x0C], [CHR 0x0D], [CHR 0x20],
      [CHR 0xC2, CHR 0x85], [CHR 0xC2, CHR 0xA0],
      [CHR 0xE1, CHR 0x9A, CHR 0x80],
      [CHR 0xE2, CHR 0x80, CHR 0x80], [CHR 0xE2, CHR 0x80, CHR 0x81],
      [CHR 0xE2, CHR 0x80, CHR 0x82], [CHR 0xE2, CHR 0x80, CHR 0x83],
      [CHR 0xE2, CHR 0x80, CHR 0x84], [CHR 0xE2, CHR 0x80, CHR 0x85],
      [CHR 0xE2, CHR 0x80, CHR 0x86], [CHR 0xE2, CHR 0x80, CHR 0x87],
      [CHR 0xE2, CHR 0x80, CHR 0x88], [CHR 0xE2, CHR 0x80, CHR 0x89],
      [CHR 0xE2, CHR 0x80, CHR 0x8A],
      [CHR 0xE2, CHR 0x80, CHR 0xA8], [CHR 0xE2, CHR 0x80, CHR 0xA9],
      [CHR 0xE2, CHR 0x80, CHR 0xAF], [CHR 0xE2, CHR 0x81, CHR 0x9F],
      [CHR 0xE3, CHR 0x80, CHR 0x80]]"

text \<open>Removing from the front of a string, as long as there is one, an occurrence of
  one of the given byte sequences.\<close>

function trim_front :: "string list \<Rightarrow> string \<Rightarrow> string" where
  "trim_front ps s =
     (case find (\<lambda>p. p \<noteq> [] \<and> take (length p) s = p) ps of
        None \<Rightarrow> s
      | Some p \<Rightarrow> trim_front ps (drop (length p) s))"
  by pat_completeness auto
termination
proof (relation "measure (\<lambda>(ps, s). length s)")
  show "wf (measure (\<lambda>(ps, s). length s))" by simp
next
  fix ps :: "string list" and s p :: string
  assume "find (\<lambda>p. p \<noteq> [] \<and> take (length p) s = p) ps = Some p"
  then have "p \<noteq> []" and "take (length p) s = p"
    by (auto simp: find_Some_iff)
  then obtain c cs where p: "p = c # cs" and "length p \<le> length s"
    by (cases p) (auto dest: arg_cong [where f = length])
  then have "length s - Suc (length cs) < length s"
    by simp
  with p show "((ps, drop (length p) s), (ps, s)) \<in> measure (\<lambda>(ps, s). length s)"
    by simp
qed

declare trim_front.simps [simp del]

text \<open>\<open>strings.TrimSpace\<close>: the string without the white space it starts with and
  ends with. The last code point of a string is white space exactly when the string ends
  with one of the encodings above.\<close>

definition TrimSpace :: "string \<Rightarrow> string" where
  "TrimSpace s = rev (trim_front (map rev space_runes) (rev (trim_front space_runes s)))"

definition HasPrefix :: "string \<Rightarrow> string \<Rightarrow> bool" where
  "HasPrefix s p = (take (length p) s = p)"

definition TrimPrefix :: "string \<Rightarrow> string \<Rightarrow> string" where
  "TrimPrefix s p = (if HasPrefix s p then drop (length p) s else s)"

subsection \<open>The client key\<close>

definition getClientIP :: "platform \<Rightarrow> Request \<Rightarrow> string" where
  "getClientIP pf r =
     (let xff = Header_Get r ''X-Forwarded-For'';
          fromXff = (if xff \<noteq> []
                     then (case Split xff (CHR '','') of
                             [] \<Rightarrow> None
                           | ip # ips \<Rightarrow> Some (TrimSpace ip))
                     else None)
      in case fromXff of
           Some ip \<Rightarrow> ip
         | None \<Rightarrow>
             (let xri = Header_Get r ''X-Real-IP''
              in if xri \<noteq> [] then xri
                 else (case SplitHostPort pf (RemoteAddr r) of
                         None \<Rightarrow> RemoteAddr r
                       | Some (ip, port) \<Rightarrow> ip)))"

definition getJWTSubject :: "platform \<Rightarrow> Request \<Rightarrow> string" where
  "getJWTSubject pf r =
     (let authHeader = Header_Get r ''Authorization''
      in if authHeader \<noteq> [] \<and> HasPrefix authHeader ''Bearer ''
         then (let token = TrimPrefix authHeader ''Bearer '';
                   token' = (if length token > 20 then take 20 token else token)
               in ''jwt:'' @ token')
         else getClientIP pf r)"

definition getAPIKey :: "platform \<Rightarrow> Request \<Rightarrow> string" where
  "getAPIKey pf r =
     (let apiKey = Header_Get r ''X-API-Key''
      in if apiKey \<noteq> [] then ''apikey:'' @ apiKey else getClientIP pf r)"

definition getUserID :: "platform \<Rightarrow> Request \<Rightarrow> string" where
  "getUserID pf r =
     (let authHeader = Header_Get r ''Authorization''
      in if authHeader \<noteq> [] \<and> HasPrefix authHeader ''Bearer ''
         then (let token = TrimPrefix authHeader ''Bearer '';
                   token' = (if length token > 20 then take 20 token else token)
               in ''user:'' @ token')
         else (let apiKey = Header_Get r ''X-API-Key''
               in if apiKey \<noteq> []
                  then ''user:'' @ (if length apiKey > 20 then take 20 apiKey else apiKey)
                  else getClientIP pf r))"

definition generateClientKey :: "platform \<Rightarrow> RateLimitMiddlewareConfig \<Rightarrow> Request \<Rightarrow> string" where
  "generateClientKey pf cfg r =
     (let custom = (case CustomKeyFunc cfg of None \<Rightarrow> [] | Some f \<Rightarrow> f r)
      in if custom \<noteq> [] then custom
         else (let key = (if Identifier cfg = ClientByIP then getClientIP pf r
                          else if Identifier cfg = ClientByJWTSubject then getJWTSubject pf r
                          else if Identifier cfg = ClientByAPIKey then getAPIKey pf r
                          else if Identifier cfg = ClientByUserID then getUserID pf r
                          else getClientIP pf r)
               in if key = [] then ''unknown:'' @ getClientIP pf r else key))"

subsection \<open>The response\<close>

definition shouldCountRequest :: "RateLimitMiddlewareConfig \<Rightarrow> int \<Rightarrow> bool" where
  "shouldCountRequest cfg statusCode =
     (if SkipSuccessful cfg \<and> statusCode \<ge> 200 \<and> statusCode < 300 then False
      else if SkipFailed cfg \<and> statusCode \<ge> 400 then False
      else True)"

definition addRateLimitHeaders :: "RateLimitMiddlewareConfig \<Rightarrow> RateLimitResult \<Rightarrow> call list" where
  "addRateLimitHeaders cfg result =
     [Header_Set ''X-RateLimit-Limit'' (Itoa (Capacity (Config cfg))),
      Header_Set ''X-RateLimit-Remaining'' (Itoa (Remaining result)),
      Header_Set ''X-RateLimit-Reset'' (Itoa (Unix (ResetTime result)))]
     @ (if \<not> Allowed result
        then [Header_Set ''Retry-After'' (FormatFloat_f0 (Seconds (RetryAfter result)))]
        else [])"

definition rate_limit_body ::
  "platform \<Rightarrow> RateLimitMiddlewareConfig \<Rightarrow> RateLimitResult \<Rightarrow> string" where
  \<open>rate_limit_body pf cfg result =
     ''{"error":"Rate limit exceeded","message":"Too many requests","retry_after":''
     @ FormatFloat_f0 (Seconds (RetryAfter result))
     @ '',"reset_time":"'' @ format_RFC3339 pf (ResetTime result)
     @ ''","limit":'' @ Itoa (Capacity (Config cfg))
     @ '',"remaining":'' @ Itoa (Remaining result) @ ''}''\<close>

definition StatusTooManyRequests :: int where
  "StatusTooManyRequests = 429"

definition writeRateLimitResponse ::
  "platform \<Rightarrow> RateLimitMiddlewareConfig \<Rightarrow> RateLimitResult \<Rightarrow> call list" where
  "writeRateLimitResponse pf cfg result =
     [Header_Set ''Content-Type'' ''application/json'',
      WriteHeader StatusTooManyRequests,
      Write (rate_limit_body pf cfg result)]"

text \<open>The status code the wrapping \<open>responseWriter\<close> holds after the handler's calls:
  \<open>200\<close>, or the code of the last \<open>WriteHeader\<close>.\<close>

definition rw_statusCode :: "call list \<Rightarrow> int" where
  "rw_statusCode calls =
     foldl (\<lambda>code c. case c of WriteHeader code' \<Rightarrow> code' | _ \<Rightarrow> code) 200 calls"

subsection \<open>The middleware\<close>

text \<open>
  One request through \<open>Middleware\<close>: the calls on the response writer, the lines
  printed, the middleware with its local buckets, and the Redis store.
\<close>

definition Middleware ::
  "platform \<Rightarrow> clock \<Rightarrow> redis_fault \<Rightarrow> Handler \<Rightarrow> RateLimitMiddleware \<Rightarrow> redis_store
     \<Rightarrow> ResponseWriter \<Rightarrow> Request
     \<Rightarrow> ResponseWriter \<times> string list \<times> RateLimitMiddleware \<times> redis_store" where
  "Middleware pf ck fault next rl store w r =
     (let cfg = config_mw rl;
          key = generateClientKey pf cfg r;
          (res, rl', store') =
            (case (if UseRedis cfg then redisLimiter rl else None) of
               Some red \<Rightarrow>
                 (let (x, s') = RedisRateLimiter_Allow pf fault (now_consume ck) red key 1 store
                  in (x, rl, s'))
             | None \<Rightarrow>
                 (let (result, lim') = CheckRateLimit pf ck key 1 (limiter rl)
                  in (Inr result, rl\<lparr>limiter := lim'\<rparr>, store)))
      in case res of
           Inl err \<Rightarrow>
             (w @ next w r, [''Rate limit check failed: '' @ err @ [CHR 0x0A]], rl', store')
         | Inr result \<Rightarrow>
             (let w1 = w @ addRateLimitHeaders cfg result
              in if \<not> Allowed result
                 then (w1 @ writeRateLimitResponse pf cfg result, [], rl', store')
                 else (let calls = next w1 r;
                           counted = shouldCountRequest cfg (rw_statusCode calls)
                       in (w1 @ calls, [], rl', store'))))"

section \<open>RateLimitHandler (handlers/ratelimit.go)\<close>

record RateLimitHandler =
  middleware :: RateLimitMiddleware

record RateLimitTestRequest =
  Key :: string
  Count :: int

record RateLimitTestResponse =
  resp_Allowed :: bool
  resp_Remaining :: int
  resp_ResetTime :: string
  resp_RetryAfter :: f64
  resp_Limit :: int

text \<open>What a management handler does with its response writer: \<open>http.Error\<close> with a
  message and a status code, or a header and the JSON encoding of a response.\<close>

datatype handler_call =
    http_Error string int
  | Set_Header string string
  | Encode RateLimitTestResponse

definition StatusBadRequest :: int where
  "StatusBadRequest = 400"

text \<open>\<open>TestRateLimit\<close>; the argument is what decoding the request body gave.\<close>

definition TestRateLimit ::
  "platform \<Rightarrow> RateLimitHandler \<Rightarrow> string + RateLimitTestRequest
     \<Rightarrow> handler_call list \<times> RateLimitHandler" where
  \<open>TestRateLimit pf h decoded =
     (case decoded of
        Inl err \<Rightarrow>
          ([http_Error (''{"error":"Invalid request body","details":"'' @ err @ ''"}'')
              StatusBadRequest], h)
      | Inr req \<Rightarrow>
          (if Key req = []
           then ([http_Error ''{"error":"Missing key","details":"key is required"}''
                    StatusBadRequest], h)
           else (let req' = (if Count req \<le> 0 then req\<lparr>Count := 1\<rparr> else req);
                     result = \<lparr>Allowed = True, Remaining = 99,
                               ResetTime = parse_RFC3339 pf ''2025-09-19T16:30:00Z'',
                               RetryAfter = 0\<rparr>;
                     response = \<lparr>resp_Allowed = Allowed result,
                                 resp_Remaining = Remaining result,
                                 resp_ResetTime = format_Z pf (ResetTime result),
                                 resp_RetryAfter = Seconds (RetryAfter result),
                                 resp_Limit = 100\<rparr>
                 in ([Set_Header ''Content-Type'' ''application/json'', Encode response], h))))\<close>

text \<open>\<open>GetClientStatus\<close>; the argument is the \<open>key\<close> query parameter.\<close>

definition GetClientStatus ::
  "RateLimitHandler \<Rightarrow> string \<Rightarrow> handler_call list \<times> RateLimitHandler" where
  \<open>GetClientStatus h key =
     (if key = []
      then ([http_Error ''{"error":"Missing key","details":"key query parameter is required"}''
               StatusBadRequest], h)
      else (let response = \<lparr>resp_Allowed = True, resp_Remaining = 95,
                            resp_ResetTime = ''2025-09-19T16:30:00Z'',
                            resp_RetryAfter = F 0 1, resp_Limit = 100\<rparr>
            in ([Set_Header ''Content-Type'' ''application/json'', Encode response], h)))\<close>

section \<open>Vocabulary of the statements\<close>

text \<open>The balance of a bucket lies between \<open>0\<close> and its capacity.\<close>

definition within_capacity :: "TokenBucket \<Rightarrow> bool" where
  "within_capacity tb = (0 \<le> tokens tb \<and> tokens tb \<le> capacity tb)"

text \<open>
  A capacity and a rate for which no refill leaves the 64-bit range: \<open>9223372036\<close> is the
  number of whole seconds of the longest \<open>Duration\<close>.
\<close>

definition no_overflow :: "int \<Rightarrow> int \<Rightarrow> bool" where
  "no_overflow cap rate = (cap + \<bar>rate\<bar> * 9223372036 \<le> 9223372036854775807)"

text \<open>The operations on one bucket, each with the clock reading it takes, and a run of
  them in order.\<close>

datatype bucket_op = Refill go_time | Consume go_time int | Read go_time

fun apply_op :: "bucket_op \<Rightarrow> TokenBucket \<Rightarrow> TokenBucket" where
  "apply_op (Refill now) tb = refill now tb"
| "apply_op (Consume now n) tb = snd (TryConsume now n tb)"
| "apply_op (Read now) tb = snd (GetTokens now tb)"

fun nonneg_request :: "bucket_op \<Rightarrow> bool" where
  "nonneg_request (Consume now n) = (0 \<le> n)"
| "nonneg_request _ = True"

definition run_ops :: "bucket_op list \<Rightarrow> TokenBucket \<Rightarrow> TokenBucket" where
  "run_ops ops tb = foldl (\<lambda>b op. apply_op op b) tb ops"

text \<open>Consecutive \<open>TryConsume(n)\<close> calls on one bucket and consecutive
  \<open>CheckRateLimit(key, n)\<close> calls on one limiter, at the given clock readings.\<close>

fun tryConsume_seq :: "go_time list \<Rightarrow> int \<Rightarrow> TokenBucket \<Rightarrow> bool list \<times> TokenBucket" where
  "tryConsume_seq [] n tb = ([], tb)"
| "tryConsume_seq (now # nows) n tb =
     (let (ok, tb1) = TryConsume now n tb;
          (oks, tb2) = tryConsume_seq nows n tb1
      in (ok # oks, tb2))"

fun checkRateLimit_seq ::
  "platform \<Rightarrow> clock list \<Rightarrow> string \<Rightarrow> int \<Rightarrow> RateLimiter \<Rightarrow> RateLimitResult list \<times> RateLimiter" where
  "checkRateLimit_seq pf [] key n rl = ([], rl)"
| "checkRateLimit_seq pf (ck # cks) key n rl =
     (let (res, rl1) = CheckRateLimit pf ck key n rl;
          (ress, rl2) = checkRateLimit_seq pf cks key n rl1
      in (res # ress, rl2))"

text \<open>A clock on which no time passes during a request.\<close>

definition frozen_clock :: "go_time \<Rightarrow> clock" where
  "frozen_clock t = \<lparr>now_create = t, now_consume = t, now_read = t, now_reset = t\<rparr>"

text \<open>The local variable \<open>tokensToAdd\<close> of \<open>refill\<close>, \<open>TryConsume\<close> and
  \<open>GetTokens\<close>.\<close>

definition tokensToAdd :: "go_time \<Rightarrow> TokenBucket \<Rightarrow> int" where
  "tokensToAdd now tb = go_mul (seconds_int (time_Sub now (lastRefill tb))) (refillRate tb)"

text \<open>The amount the specification gives for a refill, in its words: the floor of the
  elapsed seconds times the rate.\<close>

definition spec_tokensToAdd :: "duration \<Rightarrow> int \<Rightarrow> int" where
  "spec_tokensToAdd elapsed rate = (elapsed * rate) div Second"

text \<open>The limiter the middleware consults for a key: its result or error, the
  middleware with its local buckets, and the Redis store. It is the first part of the
  body of \<open>Middleware\<close>.\<close>

definition limiter_evaluation ::
  "platform \<Rightarrow> clock \<Rightarrow> redis_fault \<Rightarrow> RateLimitMiddleware \<Rightarrow> string \<Rightarrow> redis_store
     \<Rightarrow> (string + RateLimitResult) \<times> RateLimitMiddleware \<times> redis_store" where
  "limiter_evaluation pf ck fault rl key store =
     (case (if UseRedis (config_mw rl) then redisLimiter rl else None) of
        Some red \<Rightarrow>
          (let (x, s') = RedisRateLimiter_Allow pf fault (now_consume ck) red key 1 store
           in (x, rl, s'))
      | None \<Rightarrow>
          (let (result, lim') = CheckRateLimit pf ck key 1 (limiter rl)
           in (Inr result, rl\<lparr>limiter := lim'\<rparr>, store)))"

text \<open>The parts of the client key: what the configured function gives (empty when none
  is configured), what the configured identifier selects, the first entry of a
  forwarded-for header, and the host of the peer address.\<close>

definition custom_key :: "RateLimitMiddlewareConfig \<Rightarrow> Request \<Rightarrow> string" where
  "custom_key cfg r = (case CustomKeyFunc cfg of None \<Rightarrow> [] | Some f \<Rightarrow> f r)"

definition selected_key :: "platform \<Rightarrow> RateLimitMiddlewareConfig \<Rightarrow> Request \<Rightarrow> string" where
  "selected_key pf cfg r =
     (if Identifier cfg = ClientByIP then getClientIP pf r
      else if Identifier cfg = ClientByJWTSubject then getJWTSubject pf r
      else if Identifier cfg = ClientByAPIKey then getAPIKey pf r
      else if Identifier cfg = ClientByUserID then getUserID pf r
      else getClientIP pf r)"

definition first_entry :: "string \<Rightarrow> string" where
  "first_entry xff = takeWhile (\<lambda>c. c \<noteq> CHR '','') xff"

definition peer_address :: "platform \<Rightarrow> Request \<Rightarrow> string" where
  "peer_address pf r =
     (case SplitHostPort pf (RemoteAddr r) of None \<Rightarrow> RemoteAddr r | Some (ip, port) \<Rightarrow> ip)"

text \<open>Consecutive runs of the script for one token count on one key, each with the
  \<open>now\<close> its caller read, in the order in which they reach the server: whether each
  was allowed, and the store they leave.\<close>

fun allow_seq ::
  "string \<Rightarrow> int \<Rightarrow> int \<Rightarrow> int \<Rightarrow> int list \<Rightarrow> redis_store \<Rightarrow> bool list \<times> redis_store" where
  "allow_seq key cap rate n [] store = ([], store)"
| "allow_seq key cap rate n (now # nows) store =
     (let (tbl, store1) = allow_script key cap rate n now store;
          (oks, store2) = allow_seq key cap rate n nows store1
      in ((case tbl of [] \<Rightarrow> False | v # vs \<Rightarrow> v = LuaBoolean True) # oks, store2))"

text \<open>The number of calls that were granted.\<close>

definition granted :: "bool list \<Rightarrow> nat" where
  "granted oks = length (filter (\<lambda>ok. ok) oks)"

subsection \<open>Sample values\<close>

text \<open>
  Values to run the model on. The platform converts a float that does not fit to the
  smallest \<open>int64\<close>, reads and prints the one time the handlers hold, 19 September 2025
  at 16:30 UTC (1758299400 seconds after the epoch), as Go does, and prints any other time
  as its number of nanoseconds; it cuts a peer address at its colon, and hands a script's
  table over as integers and nil, the fraction of a number dropped. The middleware has the
  default configuration: capacity 100, rate 10.
\<close>

definition example_platform :: platform where
  "example_platform =
     \<lparr>f64_oor = (\<lambda>x. - 9223372036854775808),
      format_RFC3339 = (\<lambda>t. Itoa t),
      parse_RFC3339 = (\<lambda>s. if s = ''2025-09-19T16:30:00Z'' then 1758299400 * Second else 0),
      format_Z = (\<lambda>t. if t = 1758299400 * Second then ''2025-09-19T16:30:00Z'' else Itoa t),
      SplitHostPort = (\<lambda>s. if s = [] then None
                            else Some (takeWhile (\<lambda>c. c \<noteq> CHR '':'') s, [])),
      eval_result = (\<lambda>vs. GoSlice (map (\<lambda>v. case v of
                         LuaBoolean b \<Rightarrow> (if b then GoInt64 1 else GoNil)
                       | LuaNumber (F a b) \<Rightarrow> GoInt64 (tdiv a b)) vs)),
      json_Unmarshal = (\<lambda>b. Inl ''cannot unmarshal number into Go struct field'')\<rparr>"

definition example_request :: Request where
  "example_request =
     \<lparr>Header = [''X-Forwarded-For'' \<mapsto> ['' 10.0.0.7 , 192.168.1.1'']],
      RemoteAddr = ''172.16.0.1:4711''\<rparr>"

definition example_handler :: Handler where
  "example_handler w r = [WriteHeader 200, Write ''ok'']"

definition example_config :: "(Request \<Rightarrow> string) option \<Rightarrow> RateLimitMiddlewareConfig" where
  "example_config f =
     \<lparr>Identifier = ClientByIP, Config = DefaultRateLimitConfig, UseRedis = False,
      SkipSuccessful = False, SkipFailed = False, CustomKeyFunc = f\<rparr>"

definition example_middleware :: "bool \<Rightarrow> bool \<Rightarrow> RateLimitMiddleware" where
  "example_middleware redis skip =
     \<lparr>config_mw = \<lparr>Identifier = ClientByIP, Config = DefaultRateLimitConfig,
                   UseRedis = redis, SkipSuccessful = skip, SkipFailed = skip,
                   CustomKeyFunc = None\<rparr>,
      limiter = NewRateLimiter (Some DefaultRateLimitConfig),
      redisLimiter = (if redis then Some (NewRedisRateLimiter (Some DefaultRateLimitConfig))
                      else None)\<rparr>"

definition exhausted_bucket :: "go_time \<Rightarrow> TokenBucket" where
  "exhausted_bucket t = \<lparr>capacity = 100, tokens = 0, refillRate = 10, lastRefill = t\<rparr>"

section \<open>Basic facts\<close>

lemma math_floor_int [simp]: "math_floor (f64_of_int x) = x"
  by (simp add: f64_of_int_def)

lemma wrap64_id:
  "- 9223372036854775808 \<le> x \<Longrightarrow> x < 9223372036854775808 \<Longrightarrow> wrap64 x = x"
  by (simp add: wrap64_def)

lemma TryConsume_refill:
  "TryConsume now n tb =
     (if tokens (refill now tb) \<ge> n
      then (True, (refill now tb)\<lparr>tokens := go_sub (tokens (refill now tb)) n\<rparr>)
      else (False, refill now tb))"
  by (simp add: TryConsume_def refill_def Let_def)

lemma GetTokens_refill: "GetTokens now tb = (tokens (refill now tb), refill now tb)"
  by (simp add: GetTokens_def refill_def Let_def)

subsection \<open>Arithmetic in range\<close>

lemma wrap64_range: "- 9223372036854775808 \<le> wrap64 x \<and> wrap64 x \<le> 9223372036854775807"
  by (simp add: wrap64_def) 

lemma time_Sub_range: "- 9223372036854775808 \<le> time_Sub t u \<and> time_Sub t u \<le> 9223372036854775807"
  by (simp add: time_Sub_def Let_def maxDuration_def minDuration_def)

lemma tdiv_nonneg: "0 \<le> a \<Longrightarrow> 0 < b \<Longrightarrow> tdiv a b = a div b"
  by (simp add: tdiv_def)

lemma tdiv_neg: "a < 0 \<Longrightarrow> 0 < b \<Longrightarrow> tdiv a b = - ((- a) div b)"
  by (simp add: tdiv_def)

lemma seconds_int_abs:
  assumes "- 9223372036854775808 \<le> d" "d \<le> 9223372036854775807"
  shows "\<bar>seconds_int d\<bar> \<le> 9223372036"
proof (cases "0 \<le> d")
  case True
  then have "seconds_int d = d div 1000000000"
    by (simp add: seconds_int_def Second_def tdiv_nonneg)
  moreover have "0 \<le> d div 1000000000" using True by simp
  moreover have "d div 1000000000 \<le> 9223372036" using assms by linarith
  ultimately show ?thesis by simp
next
  case False
  then have "seconds_int d = - ((- d) div 1000000000)"
    by (simp add: seconds_int_def Second_def tdiv_neg)
  moreover have "0 \<le> (- d) div 1000000000" using False by simp
  moreover have "(- d) div 1000000000 \<le> 9223372036" using assms by linarith
  ultimately show ?thesis by simp
qed

lemma tokensToAdd_exact:
  assumes "0 \<le> cap" "no_overflow cap rate"
  shows "go_mul (seconds_int (time_Sub now l)) rate = seconds_int (time_Sub now l) * rate"
    and "\<bar>seconds_int (time_Sub now l) * rate\<bar> \<le> 9223372036854775807 - cap"
proof -
  let ?s = "seconds_int (time_Sub now l)"
  have s: "\<bar>?s\<bar> \<le> 9223372036"
    using time_Sub_range [of now l] by (intro seconds_int_abs) simp_all
  have "\<bar>?s * rate\<bar> = \<bar>?s\<bar> * \<bar>rate\<bar>" by (simp add: abs_mult)
  also have "\<dots> \<le> 9223372036 * \<bar>rate\<bar>" using s by (intro mult_right_mono) simp_all
  finally have b: "\<bar>?s * rate\<bar> \<le> 9223372036 * \<bar>rate\<bar>" .
  with assms show 2: "\<bar>?s * rate\<bar> \<le> 9223372036854775807 - cap"
    by (simp add: no_overflow_def)
  with assms(1) show "go_mul ?s rate = ?s * rate"
    unfolding go_mul_def by (intro wrap64_id) linarith+
qed

subsection \<open>Header names and trimming, evaluated\<close>

lemma canonical_keys:
  "CanonicalMIMEHeaderKey ''X-Forwarded-For'' = ''X-Forwarded-For''"
  "CanonicalMIMEHeaderKey ''X-Real-IP'' = ''X-Real-Ip''"
  "CanonicalMIMEHeaderKey ''X-API-Key'' = ''X-Api-Key''"
  "CanonicalMIMEHeaderKey ''Authorization'' = ''Authorization''"
  by code_simp+

lemma TrimSpace_values:
  "TrimSpace '' 10.0.0.7 '' = ''10.0.0.7''"
  "TrimSpace [CHR 0xC2, CHR 0xA0] = []"
  by code_simp+

subsection \<open>One refill, one call\<close>

lemma refill_tokensToAdd:
  "refill now tb =
     (if 0 < tokensToAdd now tb
      then tb\<lparr>tokens := min (capacity tb) (go_add (tokens tb) (tokensToAdd now tb)),
              lastRefill := now\<rparr>
      else tb)"
  by (simp add: refill_def tokensToAdd_def Let_def min_def)

lemma refill_fields: "capacity (refill now tb) = capacity tb \<and> refillRate (refill now tb) = refillRate tb"
  by (simp add: refill_def Let_def)

lemma refill_within:
  assumes "within_capacity tb" "no_overflow (capacity tb) (refillRate tb)"
  shows "within_capacity (refill now tb)"
proof -
  let ?k = "seconds_int (time_Sub now (lastRefill tb)) * refillRate tb"
  have cap: "0 \<le> capacity tb" using assms(1) by (simp add: within_capacity_def)
  note ex = tokensToAdd_exact [OF cap assms(2), of now "lastRefill tb"]
  show ?thesis
  proof (cases "?k > 0")
    case False
    then show ?thesis using assms(1) ex(1) by (simp add: refill_def Let_def)
  next
    case True
    have "go_add (tokens tb) ?k = tokens tb + ?k"
      unfolding go_add_def using assms(1) ex(2) True
      by (intro wrap64_id) (simp_all add: within_capacity_def)
    then show ?thesis using True assms(1) ex(1) cap
      by (simp add: refill_def Let_def within_capacity_def)
  qed
qed

lemma consume_within:
  assumes "within_capacity tb" "no_overflow (capacity tb) (refillRate tb)" "0 \<le> n"
  shows "within_capacity (snd (TryConsume now n tb))"
proof -
  have r: "within_capacity (refill now tb)" using assms(1,2) by (rule refill_within)
  show ?thesis
  proof (cases "n \<le> tokens (refill now tb)")
    case False
    then show ?thesis using r by (simp add: TryConsume_refill)
  next
    case True
    have "go_sub (tokens (refill now tb)) n = tokens (refill now tb) - n"
      unfolding go_sub_def using True assms(2,3) r
      by (intro wrap64_id) (simp_all add: within_capacity_def refill_fields no_overflow_def)
    then show ?thesis using True r assms(3)
      by (simp add: TryConsume_refill within_capacity_def)
  qed
qed

lemma read_within:
  assumes "within_capacity tb" "no_overflow (capacity tb) (refillRate tb)"
  shows "within_capacity (snd (GetTokens now tb))"
  using refill_within [OF assms] by (simp add: GetTokens_refill)

lemma TryConsume_fields:
  "capacity (snd (TryConsume now n tb)) = capacity tb \<and>
   refillRate (snd (TryConsume now n tb)) = refillRate tb"
  by (simp add: TryConsume_refill refill_fields)

lemma apply_op_fields:
  "capacity (apply_op op tb) = capacity tb \<and> refillRate (apply_op op tb) = refillRate tb"
  by (cases op) (simp_all add: refill_fields TryConsume_fields GetTokens_refill)

lemma apply_op_within:
  assumes "within_capacity tb" "no_overflow (capacity tb) (refillRate tb)" "nonneg_request op"
  shows "within_capacity (apply_op op tb)"
  using assms by (cases op) (simp_all add: refill_within consume_within read_within)

lemma run_ops_within:
  assumes "within_capacity tb" "no_overflow (capacity tb) (refillRate tb)"
    "list_all nonneg_request ops"
  shows "within_capacity (run_ops ops tb)"
  using assms
proof (induction ops arbitrary: tb)
  case Nil
  then show ?case by (simp add: run_ops_def)
next
  case (Cons op ops)
  have "within_capacity (apply_op op tb)"
    using Cons.prems by (intro apply_op_within) simp_all
  moreover have "no_overflow (capacity (apply_op op tb)) (refillRate (apply_op op tb))"
    using Cons.prems(2) by (simp add: apply_op_fields)
  moreover have "list_all nonneg_request ops" using Cons.prems(3) by simp
  ultimately have "within_capacity (run_ops ops (apply_op op tb))" by (rule Cons.IH)
  then show ?case by (simp add: run_ops_def)
qed

lemma refill_idle:
  assumes "\<bar>now - lastRefill tb\<bar> < Second"
  shows "refill now tb = tb"
proof -
  have "time_Sub now (lastRefill tb) = now - lastRefill tb"
    using assms unfolding time_Sub_def Let_def maxDuration_def minDuration_def Second_def
    by auto
  moreover have "tdiv (now - lastRefill tb) Second = 0"
    using assms unfolding tdiv_def Second_def by auto
  ultimately show ?thesis
    by (simp add: refill_def Let_def seconds_int_def go_mul_def wrap64_def)
qed

lemma TryConsume_idle:
  assumes "\<bar>now - lastRefill tb\<bar> < Second"
  shows "TryConsume now n tb =
     (if n \<le> tokens tb then (True, tb\<lparr>tokens := go_sub (tokens tb) n\<rparr>) else (False, tb))"
  by (simp add: TryConsume_refill refill_idle [OF assms])

lemma GetTokens_idle:
  assumes "\<bar>now - lastRefill tb\<bar> < Second"
  shows "GetTokens now tb = (tokens tb, tb)"
  by (simp add: GetTokens_refill refill_idle [OF assms])

lemma six_calls:
  "tryConsume_seq [t, t, t, t, t, t] 1 (NewTokenBucket t 5 1) =
     ([True, True, True, True, True, False],
      \<lparr>capacity = 5, tokens = 0, refillRate = 1, lastRefill = t\<rparr>)"
  by (simp add: TryConsume_idle NewTokenBucket_def Second_def go_sub_def wrap64_def)

lemma six_checks:
  "map Allowed (fst (checkRateLimit_seq pf (replicate 6 (frozen_clock t)) key 1
       (NewRateLimiter (Some \<lparr>Capacity = 5, RefillRate = 1, Window = win\<rparr>))))
     = [True, True, True, True, True, False]
   \<and> map Remaining (fst (checkRateLimit_seq pf (replicate 6 (frozen_clock t)) key 1
       (NewRateLimiter (Some \<lparr>Capacity = 5, RefillRate = 1, Window = win\<rparr>))))
     = [4, 3, 2, 1, 0, 0]"
  by (simp add: numeral_eq_Suc CheckRateLimit_def GetBucket_def NewRateLimiter_def frozen_clock_def
      TryConsume_idle GetTokens_idle NewTokenBucket_def Second_def go_sub_def wrap64_def Let_def
      GetCapacity_def GetRefillRate_def)

lemma three_seconds:
  assumes "tokens tb = 0" "refillRate tb = 1" "0 \<le> capacity tb"
  shows "fst (GetTokens (lastRefill tb + 3 * Second) tb) = min 3 (capacity tb)"
  using assms
  by (simp add: GetTokens_def Let_def time_Sub_def maxDuration_def minDuration_def Second_def
      seconds_int_def tdiv_def go_mul_def go_add_def wrap64_def min_def)

section \<open>The balance and the capacity\<close>

text \<open>
  The local bucket. A bucket created with a capacity that is not negative, with a
  capacity and a rate that keep every refill inside the 64-bit range, keeps
  \<open>0 \<le> tokens \<le> capacity\<close> after creation and after every \<open>refill\<close>,
  \<open>TryConsume\<close> and \<open>GetTokens\<close>, whatever the clock readings, as long as no call asks
  for a negative number of tokens.
\<close>

lemma local_balance_within_capacity:
  assumes "0 \<le> cap" and "no_overflow cap rate" and "list_all nonneg_request ops"
  shows "within_capacity (run_ops ops (NewTokenBucket now cap rate))"
proof -
  have "within_capacity (NewTokenBucket now cap rate)"
    using assms(1) by (simp add: within_capacity_def NewTokenBucket_def)
  moreover have "no_overflow (capacity (NewTokenBucket now cap rate))
                   (refillRate (NewTokenBucket now cap rate))"
    using assms(2) by (simp add: NewTokenBucket_def)
  ultimately show ?thesis
    using assms(3) by (rule run_ops_within)
qed

text \<open>
  Claim C1, at the input where the code departs from it. The distributed limiter has
  capacity 100 and rate 10, and the key holds 4 tokens with a last refill at second 101.
  A request whose clock was read at 100.999999999 seconds, so that its \<open>now\<close> is 100,
  reaches the server: the script takes the elapsed time of \<open>-1\<close> second as a refill of
  \<open>-10\<close> tokens, stores a balance of \<open>-6\<close> and returns it as the remaining tokens;
  with the sample platform \<open>Allow\<close> answers with \<open>Remaining = -6\<close>.
  The local \<open>refill\<close> on a bucket in the same state, at the same clock reading, adds
  nothing: it skips a refill that is not positive.
\<close>

theorem script_stores_negative_balance:
  "allow_script ''k'' 100 10 1 100 [''k'' \<mapsto> \<lparr>bucket_tokens = 4, bucket_last_refill = 101\<rparr>]
     = ([LuaBoolean False, LuaNumber (f64_of_int (- 6)),
         LuaNumber (F 1007 10), LuaNumber (F 7 10)],
        [''k'' \<mapsto> \<lparr>bucket_tokens = - 6, bucket_last_refill = 100\<rparr>])
   \<and> snd (RedisRateLimiter_Allow pf NoFault 100999999999
              (NewRedisRateLimiter (Some DefaultRateLimitConfig)) ''k'' 1
              [''k'' \<mapsto> \<lparr>bucket_tokens = 4, bucket_last_refill = 101\<rparr>])
       = [''k'' \<mapsto> \<lparr>bucket_tokens = - 6, bucket_last_refill = 100\<rparr>]
   \<and> fst (RedisRateLimiter_Allow example_platform NoFault 100999999999
              (NewRedisRateLimiter (Some DefaultRateLimitConfig)) ''k'' 1
              [''k'' \<mapsto> \<lparr>bucket_tokens = 4, bucket_last_refill = 101\<rparr>])
       = Inr \<lparr>Allowed = False, Remaining = - 6, ResetTime = time_Unix 0, RetryAfter = 0\<rparr>
   \<and> refill 100999999999
        \<lparr>capacity = 100, tokens = 4, refillRate = 10, lastRefill = 101000000000\<rparr>
       = \<lparr>capacity = 100, tokens = 4, refillRate = 10, lastRefill = 101000000000\<rparr>"
proof -
  have s: "allow_script ''k'' 100 10 1 100
             [''k'' \<mapsto> \<lparr>bucket_tokens = 4, bucket_last_refill = 101\<rparr>]
     = ([LuaBoolean False, LuaNumber (f64_of_int (- 6)),
         LuaNumber (F 1007 10), LuaNumber (F 7 10)],
        [''k'' \<mapsto> \<lparr>bucket_tokens = - 6, bucket_last_refill = 100\<rparr>])"
    by (simp add: allow_script_def Let_def) (simp add: f64_of_int_def)
  have u: "Unix 100999999999 = 100"
    by (simp add: Unix_def Second_def)
  have a: "snd (RedisRateLimiter_Allow pf NoFault 100999999999
              (NewRedisRateLimiter (Some DefaultRateLimitConfig)) ''k'' 1
              [''k'' \<mapsto> \<lparr>bucket_tokens = 4, bucket_last_refill = 101\<rparr>])
       = [''k'' \<mapsto> \<lparr>bucket_tokens = - 6, bucket_last_refill = 100\<rparr>]"
    by (simp add: RedisRateLimiter_Allow_def redis_Eval_def NewRedisRateLimiter_def
        DefaultRateLimitConfig_def u s Let_def split: sum.splits go_value.splits)
  have e: "eval_result example_platform
             [LuaBoolean False, LuaNumber (f64_of_int (- 6)),
              LuaNumber (F 1007 10), LuaNumber (F 7 10)]
      = GoSlice [GoNil, GoInt64 (- 6), GoInt64 100, GoInt64 0]"
    by (simp add: example_platform_def f64_of_int_def tdiv_def)
  have b: "fst (RedisRateLimiter_Allow example_platform NoFault 100999999999
              (NewRedisRateLimiter (Some DefaultRateLimitConfig)) ''k'' 1
              [''k'' \<mapsto> \<lparr>bucket_tokens = 4, bucket_last_refill = 101\<rparr>])
       = Inr \<lparr>Allowed = False, Remaining = - 6, ResetTime = time_Unix 0, RetryAfter = 0\<rparr>"
    by (simp add: RedisRateLimiter_Allow_def redis_Eval_def NewRedisRateLimiter_def
        DefaultRateLimitConfig_def u s e Let_def as_int64_def as_float64_def tdiv_def
        go_mul_def wrap64_def)
  have r: "refill 100999999999
        \<lparr>capacity = 100, tokens = 4, refillRate = 10, lastRefill = 101000000000\<rparr>
       = \<lparr>capacity = 100, tokens = 4, refillRate = 10, lastRefill = 101000000000\<rparr>"
    by (rule refill_idle) (simp add: Second_def)
  from s a b r show ?thesis by simp
qed

section \<open>TryConsume\<close>

text \<open>
  Claim C2. \<open>TryConsume(n)\<close> is the refill from the elapsed time, followed by the
  test \<open>tokens \<ge> n\<close>: when it holds, \<open>n\<close> tokens are subtracted and the call
  returns true, otherwise the call returns false and leaves the refilled bucket as it is.
  A bucket created with capacity 5 and rate 1 allows five consecutive \<open>TryConsume(1)\<close>
  calls and refuses the sixth when no time passes; through \<open>CheckRateLimit\<close> the
  sixth result is \<open>allowed = false\<close> with \<open>remaining = 0\<close>.
\<close>

theorem tryConsume_refills_then_takes:
  "TryConsume now n tb =
     (if n \<le> tokens (refill now tb)
      then (True, (refill now tb)\<lparr>tokens := go_sub (tokens (refill now tb)) n\<rparr>)
      else (False, refill now tb))
   \<and> tryConsume_seq [t, t, t, t, t, t] 1 (NewTokenBucket t 5 1) =
       ([True, True, True, True, True, False],
        \<lparr>capacity = 5, tokens = 0, refillRate = 1, lastRefill = t\<rparr>)
   \<and> map Allowed (fst (checkRateLimit_seq pf (replicate 6 (frozen_clock t)) key 1
         (NewRateLimiter (Some \<lparr>Capacity = 5, RefillRate = 1, Window = win\<rparr>))))
       = [True, True, True, True, True, False]
   \<and> map Remaining (fst (checkRateLimit_seq pf (replicate 6 (frozen_clock t)) key 1
         (NewRateLimiter (Some \<lparr>Capacity = 5, RefillRate = 1, Window = win\<rparr>))))
       = [4, 3, 2, 1, 0, 0]"
  using TryConsume_refill [of now n tb] six_calls [of t] six_checks [of pf t key win]
  by simp

section \<open>The amount of a refill\<close>

text \<open>
  Claim C3, as the code has it. For a refill made less than \<open>2^22\<close> seconds from
  \<open>lastRefill\<close>, the amount is the elapsed time, truncated towards zero to whole
  seconds, times the rate (in 64-bit arithmetic); it is added only when it is positive,
  the balance is then capped at the capacity and \<open>lastRefill\<close> becomes \<open>now\<close>;
  otherwise the bucket, \<open>lastRefill\<close> included, is left as it is. \<open>GetTokens\<close> and
  \<open>TryConsume\<close> use the same refill. A call made less than a second from
  \<open>lastRefill\<close> changes nothing, so the time elapsed before it still counts for the
  next call. A bucket at 0 tokens with rate 1 reports \<open>min 3 capacity\<close> when it is read
  three seconds after \<open>lastRefill\<close>.
\<close>

theorem refill_whole_seconds:
  assumes "\<bar>now - lastRefill tb\<bar> < 4194304 * Second"
    and "\<bar>now' - lastRefill tb'\<bar> < Second"
    and "tokens tb0 = 0" and "refillRate tb0 = 1" and "0 \<le> capacity tb0"
  shows "tokensToAdd now tb = wrap64 (tdiv (now - lastRefill tb) Second * refillRate tb)
       \<and> refill now tb =
           (if 0 < tokensToAdd now tb
            then tb\<lparr>tokens := min (capacity tb) (go_add (tokens tb) (tokensToAdd now tb)),
                    lastRefill := now\<rparr>
            else tb)
       \<and> GetTokens now tb = (tokens (refill now tb), refill now tb)
       \<and> fst (TryConsume now n tb) = (n \<le> tokens (refill now tb))
       \<and> refill now' tb' = tb'
       \<and> fst (GetTokens (lastRefill tb0 + 3 * Second) tb0) = min 3 (capacity tb0)"
proof -
  have "time_Sub now (lastRefill tb) = now - lastRefill tb"
    using assms(1) unfolding time_Sub_def Let_def maxDuration_def minDuration_def Second_def
    by auto
  then have "tokensToAdd now tb = wrap64 (tdiv (now - lastRefill tb) Second * refillRate tb)"
    by (simp add: tokensToAdd_def go_mul_def seconds_int_def)
  moreover have "fst (TryConsume now n tb) = (n \<le> tokens (refill now tb))"
    by (simp add: TryConsume_refill)
  ultimately show ?thesis
    using refill_tokensToAdd [of now tb] GetTokens_refill [of now tb]
      refill_idle [OF assms(2)] three_seconds [OF assms(3-5)]
    by blast
qed

text \<open>
  The theorem at an empty bucket of rate 10 refilled after 1.5 seconds, at a bucket read
  0.7 seconds after its last refill, and at an empty bucket of capacity 5 read after three
  seconds.
\<close>

theorem refill_whole_seconds_witness:
  "\<bar>(1500000000::int)
      - lastRefill \<lparr>capacity = 100, tokens = 0, refillRate = 10, lastRefill = 0\<rparr>\<bar>
     < 4194304 * Second
   \<and> \<bar>(700000000::int)
        - lastRefill \<lparr>capacity = 5, tokens = 2, refillRate = 1, lastRefill = 0\<rparr>\<bar> < Second
   \<and> tokensToAdd 1500000000 \<lparr>capacity = 100, tokens = 0, refillRate = 10, lastRefill = 0\<rparr>
       = 10
   \<and> refill 700000000 \<lparr>capacity = 5, tokens = 2, refillRate = 1, lastRefill = 0\<rparr>
       = \<lparr>capacity = 5, tokens = 2, refillRate = 1, lastRefill = 0\<rparr>
   \<and> fst (GetTokens
            (lastRefill \<lparr>capacity = 5, tokens = 0, refillRate = 1, lastRefill = 0\<rparr> + 3 * Second)
            \<lparr>capacity = 5, tokens = 0, refillRate = 1, lastRefill = 0\<rparr>)
       = min 3 (capacity \<lparr>capacity = 5, tokens = 0, refillRate = 1, lastRefill = 0\<rparr>)"
proof -
  let ?b = "\<lparr>capacity = 100, tokens = 0, refillRate = 10, lastRefill = 0\<rparr>"
  have g: "\<bar>(1500000000::int) - lastRefill ?b\<bar> < 4194304 * Second"
    by (simp add: Second_def)
  have h: "\<bar>(700000000::int)
             - lastRefill \<lparr>capacity = 5, tokens = 2, refillRate = 1, lastRefill = 0\<rparr>\<bar> < Second"
    by (simp add: Second_def)
  have e: "tokens \<lparr>capacity = 5, tokens = 0, refillRate = 1, lastRefill = 0\<rparr> = 0"
    "refillRate \<lparr>capacity = 5, tokens = 0, refillRate = 1, lastRefill = 0\<rparr> = 1"
    "0 \<le> capacity \<lparr>capacity = 5, tokens = 0, refillRate = 1, lastRefill = 0\<rparr>"
    by simp_all
  note t = refill_whole_seconds [OF g h e, where n = 0]
  have v: "wrap64 (tdiv (1500000000 - lastRefill ?b) Second * refillRate ?b) = 10"
    by (simp add: tdiv_def Second_def wrap64_def)
  from t have "tokensToAdd 1500000000 ?b
      = wrap64 (tdiv (1500000000 - lastRefill ?b) Second * refillRate ?b)"
    by blast
  with v have "tokensToAdd 1500000000 ?b = 10" by simp
  with t g h show ?thesis by blast
qed

text \<open>
  The amount is not the floor of the elapsed seconds times the rate: after 1.5 seconds
  at rate 10 an empty bucket holds 10 tokens, not 15. And the fraction of a second that
  remains when tokens are added is dropped: an empty bucket of rate 1 that is read after
  1.9 seconds and again after 3 seconds reports 2 tokens.
\<close>

theorem refill_formula_counterexample:
  "tokens (refill 1500000000 \<lparr>capacity = 100, tokens = 0, refillRate = 10, lastRefill = 0\<rparr>)
     \<noteq> min 100 (0 + spec_tokensToAdd (time_Sub 1500000000 0) 10)
   \<and> fst (GetTokens 3000000000
            (snd (GetTokens 1900000000
               \<lparr>capacity = 5, tokens = 0, refillRate = 1, lastRefill = 0\<rparr>))) = 2"
  by (simp add: GetTokens_def refill_def Let_def time_Sub_def maxDuration_def minDuration_def
      Second_def seconds_int_def tdiv_def go_mul_def go_add_def wrap64_def spec_tokensToAdd_def)

section \<open>Calls on one key, in any order\<close>

lemma tryConsume_seq_Cons:
  "tryConsume_seq (now # nows) n tb
     = (fst (TryConsume now n tb) # fst (tryConsume_seq nows n (snd (TryConsume now n tb))),
        snd (tryConsume_seq nows n (snd (TryConsume now n tb))))"
  by (simp split: prod.splits)

lemma allow_seq_Cons:
  "allow_seq key cap rate n (now # nows) store
     = ((case fst (allow_script key cap rate n now store) of
           [] \<Rightarrow> False | v # vs \<Rightarrow> v = LuaBoolean True)
          # fst (allow_seq key cap rate n nows (snd (allow_script key cap rate n now store))),
        snd (allow_seq key cap rate n nows (snd (allow_script key cap rate n now store))))"
  by (simp split: prod.splits)

text \<open>
  The local bucket. When the calls are made less than a second from \<open>lastRefill\<close>, so
  that no refill falls between them, \<open>TryConsume(1)\<close> is granted to as many callers as
  there are tokens, or to all of them when they are fewer, and the balance goes down by
  that number. The list of clock readings is any list: the order in which the callers
  reach the bucket does not matter.
\<close>

lemma local_no_double_spend:
  assumes "\<forall>now \<in> set nows. \<bar>now - lastRefill tb\<bar> < Second"
    and "0 \<le> tokens tb" and "tokens tb \<le> 9223372036854775807"
  shows "granted (fst (tryConsume_seq nows 1 tb)) = min (nat (tokens tb)) (length nows)
       \<and> tokens (snd (tryConsume_seq nows 1 tb))
           = tokens tb - int (granted (fst (tryConsume_seq nows 1 tb)))"
  using assms
proof (induction nows arbitrary: tb)
  case Nil
  then show ?case by (simp add: granted_def)
next
  case (Cons now nows)
  have idle: "\<bar>now - lastRefill tb\<bar> < Second" using Cons.prems(1) by simp
  show ?case
  proof (cases "1 \<le> tokens tb")
    case False
    then have step: "TryConsume now 1 tb = (False, tb)"
      by (simp add: TryConsume_idle [OF idle])
    have "\<forall>now \<in> set nows. \<bar>now - lastRefill tb\<bar> < Second" using Cons.prems(1) by simp
    from Cons.IH [OF this Cons.prems(2,3)] False Cons.prems(2) step show ?thesis
      by (simp add: granted_def tryConsume_seq_Cons del: tryConsume_seq.simps(2))
  next
    case True
    let ?tb = "tb\<lparr>tokens := tokens tb - 1\<rparr>"
    have "go_sub (tokens tb) 1 = tokens tb - 1"
      unfolding go_sub_def using True Cons.prems(3) by (intro wrap64_id) simp_all
    with True have step: "TryConsume now 1 tb = (True, ?tb)"
      by (simp add: TryConsume_idle [OF idle])
    have "\<forall>now \<in> set nows. \<bar>now - lastRefill ?tb\<bar> < Second" using Cons.prems(1) by simp
    moreover have "0 \<le> tokens ?tb" "tokens ?tb \<le> 9223372036854775807"
      using True Cons.prems(3) by simp_all
    ultimately have "granted (fst (tryConsume_seq nows 1 ?tb))
          = min (nat (tokens ?tb)) (length nows)
       \<and> tokens (snd (tryConsume_seq nows 1 ?tb))
           = tokens ?tb - int (granted (fst (tryConsume_seq nows 1 ?tb)))"
      by (rule Cons.IH)
    with True step show ?thesis
      by (simp add: granted_def tryConsume_seq_Cons del: tryConsume_seq.simps(2))
  qed
qed

lemma allow_script_same_second:
  assumes "1 \<le> t" and "t \<le> cap"
  shows "allow_script key cap rate 1 now
           (store(key \<mapsto> \<lparr>bucket_tokens = t, bucket_last_refill = now\<rparr>))
     = ([LuaBoolean True, LuaNumber (f64_of_int (t - 1)),
         LuaNumber (f64_add (f64_of_int now)
                      (f64_div (f64_of_int (cap - (t - 1))) (f64_of_int rate))),
         LuaNumber (f64_of_int 0)],
        store(key \<mapsto> \<lparr>bucket_tokens = t - 1, bucket_last_refill = now\<rparr>))"
  using assms by (simp add: allow_script_def Let_def)

lemma allow_seq_same_second:
  assumes "int k \<le> t" and "t \<le> cap"
  shows "allow_seq key cap rate 1 (replicate k now @ nows)
           (store(key \<mapsto> \<lparr>bucket_tokens = t, bucket_last_refill = now\<rparr>))
     = (replicate k True
          @ fst (allow_seq key cap rate 1 nows
                   (store(key \<mapsto> \<lparr>bucket_tokens = t - int k, bucket_last_refill = now\<rparr>))),
        snd (allow_seq key cap rate 1 nows
               (store(key \<mapsto> \<lparr>bucket_tokens = t - int k, bucket_last_refill = now\<rparr>))))"
  using assms
proof (induction k arbitrary: t)
  case 0
  then show ?case by simp
next
  case (Suc k)
  have one: "1 \<le> t" using Suc.prems(1) by simp
  note step = allow_script_same_second
      [OF one Suc.prems(2), where key = key and now = now and rate = rate and store = store]
  have head: "allow_seq key cap rate 1 (replicate (Suc k) now @ nows)
                (store(key \<mapsto> \<lparr>bucket_tokens = t, bucket_last_refill = now\<rparr>))
     = (True # fst (allow_seq key cap rate 1 (replicate k now @ nows)
                      (store(key \<mapsto> \<lparr>bucket_tokens = t - 1, bucket_last_refill = now\<rparr>))),
        snd (allow_seq key cap rate 1 (replicate k now @ nows)
               (store(key \<mapsto> \<lparr>bucket_tokens = t - 1, bucket_last_refill = now\<rparr>))))"
    by (simp add: allow_seq_Cons step del: allow_seq.simps(2))
  have "int k \<le> t - 1" "t - 1 \<le> cap" using Suc.prems by simp_all
  then have tail: "allow_seq key cap rate 1 (replicate k now @ nows)
           (store(key \<mapsto> \<lparr>bucket_tokens = t - 1, bucket_last_refill = now\<rparr>))
     = (replicate k True
          @ fst (allow_seq key cap rate 1 nows
                   (store(key \<mapsto> \<lparr>bucket_tokens = t - 1 - int k, bucket_last_refill = now\<rparr>))),
        snd (allow_seq key cap rate 1 nows
               (store(key \<mapsto> \<lparr>bucket_tokens = t - 1 - int k, bucket_last_refill = now\<rparr>))))"
    by (rule Suc.IH)
  have e: "t - 1 - int k = t - int (Suc k)" by simp
  show ?case unfolding head tail e by (simp del: fun_upd_apply)
qed

text \<open>
  Claim C4, at the input where the code departs from it. The distributed limiter has
  capacity 100 and rate 10, and 96 callers ask for one token of a key that has no state.
  Each caller's \<open>now\<close> is read before its call reaches the server: 95 callers read 101
  and one read 100. When the one that read 100 comes last, 95 calls are granted, the last
  is denied and the balance is \<open>-5\<close>; when it comes first, all 96 are granted and the
  balance is 5.
\<close>

theorem distributed_allow_depends_on_order:
  "granted (fst (allow_seq ''k'' 100 10 1 (replicate 95 101 @ [100]) Map.empty)) = 95
   \<and> snd (allow_seq ''k'' 100 10 1 (replicate 95 101 @ [100]) Map.empty) ''k''
       = Some \<lparr>bucket_tokens = - 5, bucket_last_refill = 100\<rparr>
   \<and> granted (fst (allow_seq ''k'' 100 10 1 (100 # replicate 95 101) Map.empty)) = 96
   \<and> snd (allow_seq ''k'' 100 10 1 (100 # replicate 95 101) Map.empty) ''k''
       = Some \<lparr>bucket_tokens = 5, bucket_last_refill = 101\<rparr>"
proof -
  let ?full = "[''k'' \<mapsto> \<lparr>bucket_tokens = 100, bucket_last_refill = 101\<rparr>]"
  have first: "allow_seq ''k'' 100 10 1 (101 # nows) Map.empty
      = (True # fst (allow_seq ''k'' 100 10 1 nows
                       [''k'' \<mapsto> \<lparr>bucket_tokens = 99, bucket_last_refill = 101\<rparr>]),
         snd (allow_seq ''k'' 100 10 1 nows
                [''k'' \<mapsto> \<lparr>bucket_tokens = 99, bucket_last_refill = 101\<rparr>]))" for nows
    by (simp add: allow_seq_Cons allow_script_def Let_def del: allow_seq.simps(2))
  have late: "allow_seq ''k'' 100 10 1 [100]
                [''k'' \<mapsto> \<lparr>bucket_tokens = 5, bucket_last_refill = 101\<rparr>]
      = ([False], [''k'' \<mapsto> \<lparr>bucket_tokens = - 5, bucket_last_refill = 100\<rparr>])"
    by (simp add: allow_seq_Cons allow_script_def Let_def del: allow_seq.simps(2))
  have early: "allow_seq ''k'' 100 10 1 (100 # nows) Map.empty
      = (True # fst (allow_seq ''k'' 100 10 1 nows
                       [''k'' \<mapsto> \<lparr>bucket_tokens = 99, bucket_last_refill = 100\<rparr>]),
         snd (allow_seq ''k'' 100 10 1 nows
                [''k'' \<mapsto> \<lparr>bucket_tokens = 99, bucket_last_refill = 100\<rparr>]))" for nows
    by (simp add: allow_seq_Cons allow_script_def Let_def del: allow_seq.simps(2))
  have next_second: "allow_seq ''k'' 100 10 1 (101 # nows)
                [''k'' \<mapsto> \<lparr>bucket_tokens = 99, bucket_last_refill = 100\<rparr>]
      = (True # fst (allow_seq ''k'' 100 10 1 nows
                       [''k'' \<mapsto> \<lparr>bucket_tokens = 99, bucket_last_refill = 101\<rparr>]),
         snd (allow_seq ''k'' 100 10 1 nows
                [''k'' \<mapsto> \<lparr>bucket_tokens = 99, bucket_last_refill = 101\<rparr>]))" for nows
    by (simp add: allow_seq_Cons allow_script_def Let_def del: allow_seq.simps(2))
  have run: "allow_seq ''k'' 100 10 1 (replicate 94 101 @ nows)
                [''k'' \<mapsto> \<lparr>bucket_tokens = 99, bucket_last_refill = 101\<rparr>]
      = (replicate 94 True
           @ fst (allow_seq ''k'' 100 10 1 nows
                    [''k'' \<mapsto> \<lparr>bucket_tokens = 5, bucket_last_refill = 101\<rparr>]),
         snd (allow_seq ''k'' 100 10 1 nows
                [''k'' \<mapsto> \<lparr>bucket_tokens = 5, bucket_last_refill = 101\<rparr>]))" for nows
    using allow_seq_same_second
      [where store = Map.empty and key = "''k''" and t = 99 and now = 101 and k = 94
         and cap = 100 and rate = 10 and nows = nows]
    by simp
  have split95: "replicate 95 (101::int) = 101 # replicate 94 101"
    by (simp add: numeral_eq_Suc)
  have a: "allow_seq ''k'' 100 10 1 (replicate 95 101 @ [100]) Map.empty
      = (True # replicate 94 True @ [False],
         [''k'' \<mapsto> \<lparr>bucket_tokens = - 5, bucket_last_refill = 100\<rparr>])"
    by (simp add: split95 first run late del: allow_seq.simps(2))
  have b: "allow_seq ''k'' 100 10 1 (100 # replicate 95 101) Map.empty
      = (True # True # replicate 94 True,
         [''k'' \<mapsto> \<lparr>bucket_tokens = 5, bucket_last_refill = 101\<rparr>])"
    using run [of "[]"] by (simp add: split95 early next_second del: allow_seq.simps(2))
  show ?thesis
    unfolding a b by (simp add: granted_def)
qed

section \<open>The middleware, step by step\<close>

lemma Middleware_evaluation:
  "Middleware pf ck fault next rl store w r =
     (case limiter_evaluation pf ck fault rl (generateClientKey pf (config_mw rl) r) store of
        (Inl err, rl', store') \<Rightarrow>
          (w @ next w r, [''Rate limit check failed: '' @ err @ [CHR 0x0A]], rl', store')
      | (Inr result, rl', store') \<Rightarrow>
          (if \<not> Allowed result
           then (w @ addRateLimitHeaders (config_mw rl) result
                   @ writeRateLimitResponse pf (config_mw rl) result, [], rl', store')
           else (w @ addRateLimitHeaders (config_mw rl) result
                   @ next (w @ addRateLimitHeaders (config_mw rl) result) r, [], rl', store')))"
  by (simp add: Middleware_def limiter_evaluation_def Let_def
      split: option.splits prod.splits sum.splits)

lemma local_evaluation:
  assumes "\<not> UseRedis (config_mw rl)"
  shows "limiter_evaluation pf ck fault rl key store
     = (Inr (fst (CheckRateLimit pf ck key 1 (limiter rl))),
        rl\<lparr>limiter := snd (CheckRateLimit pf ck key 1 (limiter rl))\<rparr>, store)"
  using assms by (simp add: limiter_evaluation_def Let_def split: prod.splits)

lemma local_evaluation_no_error:
  assumes "\<not> UseRedis (config_mw rl) \<or> redisLimiter rl = None"
  shows "\<exists>result. fst (limiter_evaluation pf ck fault rl key store) = Inr result"
  using assms by (auto simp: limiter_evaluation_def Let_def split: prod.splits)

lemma redis_fault_error:
  assumes "fault \<noteq> NoFault"
  shows "\<exists>err. fst (RedisRateLimiter_Allow pf fault tnow red key n store) = Inl err"
  using assms by (cases fault) (simp_all add: RedisRateLimiter_Allow_def redis_Eval_def Let_def)

lemma redis_evaluation_fault:
  assumes "UseRedis (config_mw rl)" and "redisLimiter rl = Some red" and "fault \<noteq> NoFault"
  shows "\<exists>err. fst (limiter_evaluation pf ck fault rl key store) = Inl err"
proof -
  obtain err where "fst (RedisRateLimiter_Allow pf fault (now_consume ck) red key 1 store) = Inl err"
    using redis_fault_error [OF assms(3)] by blast
  then show ?thesis
    using assms(1,2) by (auto simp: limiter_evaluation_def Let_def split: prod.splits)
qed

lemma middleware_error:
  assumes "fst (limiter_evaluation pf ck fault rl (generateClientKey pf (config_mw rl) r) store)
             = Inl err"
  shows "fst (Middleware pf ck fault next rl store w r) = w @ next w r
       \<and> fst (snd (Middleware pf ck fault next rl store w r))
           = [''Rate limit check failed: '' @ err @ [CHR 0x0A]]"
proof (cases "limiter_evaluation pf ck fault rl (generateClientKey pf (config_mw rl) r) store")
  case (fields res rl' store')
  with assms have "res = Inl err" by simp
  with fields show ?thesis by (simp add: Middleware_evaluation)
qed

text \<open>
  When the evaluation gives a result, the middleware sets the three rate-limit headers;
  it then passes the request on when the result allows it, and otherwise sets
  \<open>Retry-After\<close>, answers 429 with the JSON body and makes no call to the handler.
\<close>

lemma middleware_annotates:
  assumes "fst (limiter_evaluation pf ck fault rl (generateClientKey pf (config_mw rl) r) store)
             = Inr result"
  shows "fst (Middleware pf ck fault next rl store w r) =
           w @ [Header_Set ''X-RateLimit-Limit'' (Itoa (Capacity (Config (config_mw rl)))),
                Header_Set ''X-RateLimit-Remaining'' (Itoa (Remaining result)),
                Header_Set ''X-RateLimit-Reset'' (Itoa (Unix (ResetTime result)))]
             @ (if Allowed result
                then next (w @ [Header_Set ''X-RateLimit-Limit''
                                  (Itoa (Capacity (Config (config_mw rl)))),
                                Header_Set ''X-RateLimit-Remaining'' (Itoa (Remaining result)),
                                Header_Set ''X-RateLimit-Reset''
                                  (Itoa (Unix (ResetTime result)))]) r
                else [Header_Set ''Retry-After'' (FormatFloat_f0 (Seconds (RetryAfter result))),
                      Header_Set ''Content-Type'' ''application/json'',
                      WriteHeader 429,
                      Write (rate_limit_body pf (config_mw rl) result)])"
proof (cases "limiter_evaluation pf ck fault rl (generateClientKey pf (config_mw rl) r) store")
  case (fields res rl' store')
  with assms have "res = Inr result" by simp
  with fields show ?thesis
    by (simp add: Middleware_evaluation addRateLimitHeaders_def writeRateLimitResponse_def
        StatusTooManyRequests_def)
qed

subsection \<open>The flags that skip requests\<close>

lemma key_flags:
  "generateClientKey pf (cfg\<lparr>SkipSuccessful := a, SkipFailed := b\<rparr>) r = generateClientKey pf cfg r"
  by (simp add: generateClientKey_def)

lemma headers_flags:
  "addRateLimitHeaders (cfg\<lparr>SkipSuccessful := a, SkipFailed := b\<rparr>) res
     = addRateLimitHeaders cfg res"
  "writeRateLimitResponse pf (cfg\<lparr>SkipSuccessful := a, SkipFailed := b\<rparr>) res
     = writeRateLimitResponse pf cfg res"
  by (simp_all add: addRateLimitHeaders_def writeRateLimitResponse_def rate_limit_body_def)

lemma evaluation_flags:
  "limiter_evaluation pf ck fault
       (rl\<lparr>config_mw := (config_mw rl)\<lparr>SkipSuccessful := a, SkipFailed := b\<rparr>\<rparr>) key store
     = (case limiter_evaluation pf ck fault rl key store of
          (x, rl', s') \<Rightarrow>
            (x, rl'\<lparr>config_mw := (config_mw rl')\<lparr>SkipSuccessful := a, SkipFailed := b\<rparr>\<rparr>, s'))"
  by (simp add: limiter_evaluation_def Let_def split: option.splits prod.splits)

text \<open>
  The response, the local buckets and the Redis store a request leaves are the same
  whatever the two flags are.
\<close>

lemma skip_flags_ignored:
  "fst (Middleware pf ck fault next
          (rl\<lparr>config_mw := (config_mw rl)\<lparr>SkipSuccessful := a, SkipFailed := b\<rparr>\<rparr>) store w r)
     = fst (Middleware pf ck fault next rl store w r)
   \<and> limiter (fst (snd (snd (Middleware pf ck fault next
          (rl\<lparr>config_mw := (config_mw rl)\<lparr>SkipSuccessful := a, SkipFailed := b\<rparr>\<rparr>) store w r))))
     = limiter (fst (snd (snd (Middleware pf ck fault next rl store w r))))
   \<and> snd (snd (snd (Middleware pf ck fault next
          (rl\<lparr>config_mw := (config_mw rl)\<lparr>SkipSuccessful := a, SkipFailed := b\<rparr>\<rparr>) store w r)))
     = snd (snd (snd (Middleware pf ck fault next rl store w r)))"
proof (cases "limiter_evaluation pf ck fault rl (generateClientKey pf (config_mw rl) r) store")
  case (fields res rl' store')
  show ?thesis
  proof (cases res)
    case (Inl err)
    with fields show ?thesis
      by (simp add: Middleware_evaluation key_flags headers_flags evaluation_flags)
  next
    case (Inr result)
    with fields show ?thesis
      by (simp add: Middleware_evaluation key_flags headers_flags evaluation_flags)
  qed
qed

subsection \<open>The sample values, evaluated\<close>

lemma example_key:
  "generateClientKey pf (config_mw (example_middleware a b)) example_request = ''10.0.0.7''"
  by (simp add: generateClientKey_def example_middleware_def example_request_def getClientIP_def
      Header_Get_def canonical_keys TrimSpace_values ClientByIP_def Let_def)

lemma example_fields:
  "UseRedis (config_mw (example_middleware a b)) = a"
  "limiter (example_middleware a b) = NewRateLimiter (Some DefaultRateLimitConfig)"
  "Capacity (Config (config_mw (example_middleware a b))) = 100"
  "SkipSuccessful (config_mw (example_middleware a b)) = b"
  "SkipFailed (config_mw (example_middleware a b)) = b"
  by (simp_all add: example_middleware_def DefaultRateLimitConfig_def)

lemma Itoa_values:
  "Itoa 0 = ''0''" "Itoa 100 = ''100''" "Itoa 1700000000 = ''1700000000''"
  by (simp_all add: Itoa_def digits.simps digit_char_def)

lemma FormatFloat_zero: "FormatFloat_f0 (Seconds 0) = ''0''"
  by (simp add: Seconds_def tdiv_def Second_def f64_of_int_def round_half_even_def
      digits.simps digit_char_def)

lemma check_exhausted:
  "CheckRateLimit pf (frozen_clock t) key 1
       \<lparr>buckets = [key \<mapsto> exhausted_bucket t], config = DefaultRateLimitConfig\<rparr>
   = (\<lparr>Allowed = False, Remaining = 0, ResetTime = t, RetryAfter = 0\<rparr>,
      \<lparr>buckets = [key \<mapsto> exhausted_bucket t], config = DefaultRateLimitConfig\<rparr>)"
proof -
  have b: "GetBucket t key
             \<lparr>buckets = [key \<mapsto> exhausted_bucket t], config = DefaultRateLimitConfig\<rparr>
        = (exhausted_bucket t,
           \<lparr>buckets = [key \<mapsto> exhausted_bucket t], config = DefaultRateLimitConfig\<rparr>)"
    by (simp add: GetBucket_def)
  have i: "\<bar>t - lastRefill (exhausted_bucket t)\<bar> < Second"
    by (simp add: exhausted_bucket_def Second_def)
  have c: "TryConsume t 1 (exhausted_bucket t) = (False, exhausted_bucket t)"
    by (simp add: TryConsume_idle [OF i]) (simp add: exhausted_bucket_def)
  have g: "GetTokens t (exhausted_bucket t) = (0, exhausted_bucket t)"
    by (simp add: GetTokens_idle [OF i]) (simp add: exhausted_bucket_def)
  have q: "f64_to_int64 (f64_oor pf) (f64_div (f64_of_int (go_sub 1 0)) (f64_of_int 10)) = 0"
    by (simp add: f64_of_int_def go_sub_def wrap64_def tdiv_def)
  have m: "go_mul 0 Second = 0" by (simp add: go_mul_def wrap64_def)
  have r: "GetRefillRate (exhausted_bucket t) = 10" "GetCapacity (exhausted_bucket t) = 100"
    by (simp_all add: GetRefillRate_def GetCapacity_def exhausted_bucket_def)
  show ?thesis
    unfolding CheckRateLimit_def frozen_clock_def
    by (simp add: b c g q m r time_Add_def)
qed

lemma check_fresh:
  "CheckRateLimit pf (frozen_clock t) key 1 (NewRateLimiter (Some DefaultRateLimitConfig))
   = (\<lparr>Allowed = True, Remaining = 99, ResetTime = t, RetryAfter = 0\<rparr>,
      \<lparr>buckets = [key \<mapsto> \<lparr>capacity = 100, tokens = 99, refillRate = 10, lastRefill = t\<rparr>],
       config = DefaultRateLimitConfig\<rparr>)"
proof -
  let ?full = "\<lparr>capacity = 100, tokens = 100, refillRate = 10, lastRefill = t\<rparr>"
  let ?used = "\<lparr>capacity = 100, tokens = 99, refillRate = 10, lastRefill = t\<rparr>"
  have b: "GetBucket t key (NewRateLimiter (Some DefaultRateLimitConfig))
        = (?full, \<lparr>buckets = [key \<mapsto> ?full], config = DefaultRateLimitConfig\<rparr>)"
    by (simp add: GetBucket_def NewRateLimiter_def NewTokenBucket_def DefaultRateLimitConfig_def
        Let_def)
  have i: "\<bar>t - lastRefill ?full\<bar> < Second" "\<bar>t - lastRefill ?used\<bar> < Second"
    by (simp_all add: Second_def)
  have c: "TryConsume t 1 ?full = (True, ?used)"
    by (simp add: TryConsume_idle [OF i(1)]) (simp add: go_sub_def wrap64_def)
  have g: "GetTokens t ?used = (99, ?used)"
    by (simp add: GetTokens_idle [OF i(2)])
  have q: "f64_to_int64 (f64_oor pf) (f64_div (f64_of_int (go_sub 100 99)) (f64_of_int 10)) = 0"
    by (simp add: f64_of_int_def go_sub_def wrap64_def tdiv_def)
  have m: "go_mul 0 Second = 0" by (simp add: go_mul_def wrap64_def)
  have r: "GetRefillRate ?used = 10" "GetCapacity ?used = 100"
    by (simp_all add: GetRefillRate_def GetCapacity_def)
  show ?thesis
    unfolding CheckRateLimit_def frozen_clock_def
    by (simp add: b c g q m r time_Add_def)
qed

section \<open>Failing open\<close>

text \<open>
  Claim C5. Whenever the limiter the middleware consults returns an error, the calls on
  the response writer are exactly those of the downstream handler, run on the writer as
  the middleware received it: the middleware sets no header and writes no denial, and it
  prints the error. The Redis limiter returns an error whenever its call to the server
  fails, before or after the server ran the script, so with Redis configured every failed
  call lets the request through.
\<close>

theorem middleware_fails_open:
  assumes "fst (limiter_evaluation pf ck fault rl (generateClientKey pf (config_mw rl) r) store)
             = Inl err"
    and "UseRedis (config_mw rl')" and "redisLimiter rl' = Some red" and "fault' \<noteq> NoFault"
  shows "fst (Middleware pf ck fault next rl store w r) = w @ next w r
       \<and> fst (snd (Middleware pf ck fault next rl store w r))
           = [''Rate limit check failed: '' @ err @ [CHR 0x0A]]
       \<and> fst (Middleware pf' ck' fault' next' rl' store' w' r') = w' @ next' w' r'"
proof -
  obtain err' where
    "fst (limiter_evaluation pf' ck' fault' rl' (generateClientKey pf' (config_mw rl') r') store')
       = Inl err'"
    using redis_evaluation_fault [OF assms(2-4)] by blast
  then have "fst (Middleware pf' ck' fault' next' rl' store' w' r') = w' @ next' w' r'"
    using middleware_error by blast
  then show ?thesis
    using middleware_error [OF assms(1)] by simp
qed

text \<open>
  The theorem at a request whose call to Redis times out: the limiter returns the wrapped
  error and the response is the handler's.
\<close>

theorem middleware_fails_open_witness:
  "fst (limiter_evaluation example_platform (frozen_clock 0) (FailAfter ''i/o timeout'')
          (example_middleware True False)
          (generateClientKey example_platform (config_mw (example_middleware True False))
             example_request) Map.empty)
     = Inl ''redis rate limit check failed: i/o timeout''
   \<and> UseRedis (config_mw (example_middleware True False))
   \<and> FailAfter ''i/o timeout'' \<noteq> NoFault
   \<and> fst (Middleware example_platform (frozen_clock 0) (FailAfter ''i/o timeout'') example_handler
            (example_middleware True False) Map.empty [] example_request)
       = [WriteHeader 200, Write ''ok'']"
proof -
  have h: "fst (limiter_evaluation example_platform (frozen_clock 0) (FailAfter ''i/o timeout'')
          (example_middleware True False)
          (generateClientKey example_platform (config_mw (example_middleware True False))
             example_request) Map.empty)
     = Inl ''redis rate limit check failed: i/o timeout''"
    by (simp add: limiter_evaluation_def example_middleware_def RedisRateLimiter_Allow_def
        redis_Eval_def Let_def split: prod.splits)
  have u: "UseRedis (config_mw (example_middleware True False))"
    "redisLimiter (example_middleware True False)
       = Some (NewRedisRateLimiter (Some DefaultRateLimitConfig))"
    "FailAfter ''i/o timeout'' \<noteq> NoFault"
    by (simp_all add: example_middleware_def)
  note t = middleware_fails_open [OF h u, where ?next = example_handler and w = "[]"]
  from t have "fst (Middleware example_platform (frozen_clock 0) (FailAfter ''i/o timeout'')
            example_handler (example_middleware True False) Map.empty [] example_request)
       = [] @ example_handler [] example_request"
    by blast
  with h u(1,3) show ?thesis by (simp add: example_handler_def)
qed

section \<open>The headers and the denial\<close>

text \<open>
  Claim C6, at the input where the code departs from it. The middleware has capacity 100
  and rate 10 and the client's bucket is empty. The request is denied with the three
  rate-limit headers, status 429 and the JSON body, and the handler is not called; but
  the \<open>Retry-After\<close> header and the \<open>retry_after\<close> field are \<open>0\<close>: the tenth of a
  second to wait is truncated to whole seconds before it is made a duration.
\<close>

theorem denial_retry_after_zero:
  \<open>fst (Middleware pf (frozen_clock 1700000000000000000) fault next
          ((example_middleware False False)
             \<lparr>limiter := \<lparr>buckets = [''10.0.0.7'' \<mapsto> exhausted_bucket 1700000000000000000],
                          config = DefaultRateLimitConfig\<rparr>\<rparr>)
          store w example_request)
     = w @ [Header_Set ''X-RateLimit-Limit'' ''100'',
            Header_Set ''X-RateLimit-Remaining'' ''0'',
            Header_Set ''X-RateLimit-Reset'' ''1700000000'',
            Header_Set ''Retry-After'' ''0'',
            Header_Set ''Content-Type'' ''application/json'',
            WriteHeader 429,
            Write (''{"error":"Rate limit exceeded","message":"Too many requests","retry_after":0,"reset_time":"''
                   @ format_RFC3339 pf 1700000000000000000
                   @ ''","limit":100,"remaining":0}'')]\<close>
proof -
  let ?rl = "(example_middleware False False)
             \<lparr>limiter := \<lparr>buckets = [''10.0.0.7'' \<mapsto> exhausted_bucket 1700000000000000000],
                          config = DefaultRateLimitConfig\<rparr>\<rparr>"
  have k: "generateClientKey pf (config_mw ?rl) example_request = ''10.0.0.7''"
    by (simp add: example_key)
  have u: "\<not> UseRedis (config_mw ?rl)" by (simp add: example_fields)
  have h: "addRateLimitHeaders (config_mw (example_middleware False False))
             \<lparr>Allowed = False, Remaining = 0, ResetTime = 1700000000000000000, RetryAfter = 0\<rparr>
        = [Header_Set ''X-RateLimit-Limit'' ''100'',
            Header_Set ''X-RateLimit-Remaining'' ''0'',
            Header_Set ''X-RateLimit-Reset'' ''1700000000'',
            Header_Set ''Retry-After'' ''0'']"
    by (simp add: addRateLimitHeaders_def example_fields Itoa_values FormatFloat_zero Unix_def
        Second_def)
  have b: \<open>writeRateLimitResponse pf (config_mw (example_middleware False False))
             \<lparr>Allowed = False, Remaining = 0, ResetTime = 1700000000000000000, RetryAfter = 0\<rparr>
        = [Header_Set ''Content-Type'' ''application/json'',
            WriteHeader 429,
            Write (''{"error":"Rate limit exceeded","message":"Too many requests","retry_after":0,"reset_time":"''
                   @ format_RFC3339 pf 1700000000000000000
                   @ ''","limit":100,"remaining":0}'')]\<close>
    by (simp add: writeRateLimitResponse_def rate_limit_body_def StatusTooManyRequests_def
        example_fields Itoa_values FormatFloat_zero)
  show ?thesis
    unfolding Middleware_evaluation k local_evaluation [OF u]
    by (simp add: check_exhausted h b)
qed

section \<open>The client key\<close>

lemma Split_first: "\<exists>rest. Split s sep = takeWhile (\<lambda>c. c \<noteq> sep) s # rest"
  by (induction s) (auto split: list.splits)

lemma generateClientKey_cases:
  "generateClientKey pf cfg r =
     (if custom_key cfg r \<noteq> [] then custom_key cfg r
      else if selected_key pf cfg r = [] then ''unknown:'' @ getClientIP pf r
      else selected_key pf cfg r)"
  by (simp add: generateClientKey_def custom_key_def selected_key_def Let_def)

lemma getClientIP_cases:
  "getClientIP pf r =
     (if Header_Get r ''X-Forwarded-For'' \<noteq> []
      then TrimSpace (first_entry (Header_Get r ''X-Forwarded-For''))
      else if Header_Get r ''X-Real-IP'' \<noteq> [] then Header_Get r ''X-Real-IP''
      else peer_address pf r)"
proof -
  obtain rest where "Split (Header_Get r ''X-Forwarded-For'') (CHR '','')
      = first_entry (Header_Get r ''X-Forwarded-For'') # rest"
    using Split_first [of "Header_Get r ''X-Forwarded-For''" "CHR '',''"]
    by (auto simp: first_entry_def)
  then show ?thesis
    by (simp add: getClientIP_def peer_address_def Let_def)
qed

text \<open>
  Claim C7. The client key is a function of the configuration and the request, and it is
  never empty. A configured key function that returns a non-empty key decides. Otherwise,
  with the source IP as identifier, the key is the client IP when that is not empty: the
  first entry of \<open>X-Forwarded-For\<close>, trimmed, when the header is present, else
  \<open>X-Real-IP\<close> when present, else the host of the peer address. When the key the
  identifier selects is empty, the key is \<open>unknown:\<close> followed by the client IP.
  A header is read under the canonical form of its name, which is how net/http stores it,
  and trimming removes the white space of Unicode.
\<close>

theorem client_key_derivation:
  assumes "custom_key cfg1 r1 \<noteq> []"
    and "custom_key cfg2 r2 = []" and "Identifier cfg2 = ClientByIP"
    and "custom_key cfg3 r3 = []" and "selected_key pf cfg3 r3 = []"
  shows "generateClientKey pf cfg r \<noteq> []
       \<and> generateClientKey pf cfg1 r1 = custom_key cfg1 r1
       \<and> generateClientKey pf cfg2 r2 =
           (if getClientIP pf r2 = [] then ''unknown:'' @ getClientIP pf r2
            else getClientIP pf r2)
       \<and> getClientIP pf r =
           (if Header_Get r ''X-Forwarded-For'' \<noteq> []
            then TrimSpace (first_entry (Header_Get r ''X-Forwarded-For''))
            else if Header_Get r ''X-Real-IP'' \<noteq> [] then Header_Get r ''X-Real-IP''
            else peer_address pf r)
       \<and> generateClientKey pf cfg3 r3 = ''unknown:'' @ getClientIP pf r3"
proof -
  have "generateClientKey pf cfg r \<noteq> []"
    by (simp add: generateClientKey_cases)
  moreover have "generateClientKey pf cfg1 r1 = custom_key cfg1 r1"
    using assms(1) by (simp add: generateClientKey_cases)
  moreover have "generateClientKey pf cfg2 r2 =
           (if getClientIP pf r2 = [] then ''unknown:'' @ getClientIP pf r2
            else getClientIP pf r2)"
    using assms(2,3) by (simp add: generateClientKey_cases selected_key_def)
  moreover have "generateClientKey pf cfg3 r3 = ''unknown:'' @ getClientIP pf r3"
    using assms(4,5) by (simp add: generateClientKey_cases)
  ultimately show ?thesis
    using getClientIP_cases [of pf r] by simp
qed

text \<open>
  The theorem at four requests: one with a key function that answers \<open>tenant-42\<close>, one
  with a forwarded-for header that starts with \<open>10.0.0.7\<close>, one that has the real-IP
  header only, under the canonical name \<open>X-Real-Ip\<close> that net/http stores it with, and
  one whose forwarded-for header is a no-break space (U+00A0) and nothing else.
\<close>

theorem client_key_derivation_witness:
  "generateClientKey example_platform (example_config (Some (\<lambda>r. ''tenant-42''))) example_request
     = ''tenant-42''
   \<and> generateClientKey example_platform (example_config None) example_request = ''10.0.0.7''
   \<and> generateClientKey example_platform (example_config None)
        \<lparr>Header = [''X-Real-Ip'' \<mapsto> [''203.0.113.9'']], RemoteAddr = ''172.16.0.1:4711''\<rparr>
     = ''203.0.113.9''
   \<and> generateClientKey example_platform (example_config None)
        \<lparr>Header = [''X-Forwarded-For'' \<mapsto> [[CHR 0xC2, CHR 0xA0]]],
         RemoteAddr = ''172.16.0.1:4711''\<rparr>
     = ''unknown:''"
proof -
  let ?r2 = "\<lparr>Header = [''X-Real-Ip'' \<mapsto> [''203.0.113.9'']],
              RemoteAddr = ''172.16.0.1:4711''\<rparr>"
  let ?r3 = "\<lparr>Header = [''X-Forwarded-For'' \<mapsto> [[CHR 0xC2, CHR 0xA0]]],
              RemoteAddr = ''172.16.0.1:4711''\<rparr>"
  have ip: "getClientIP example_platform example_request = ''10.0.0.7''"
    "getClientIP example_platform ?r2 = ''203.0.113.9''"
    "getClientIP example_platform ?r3 = []"
    by (simp_all add: getClientIP_def example_request_def Header_Get_def canonical_keys
        TrimSpace_values Let_def)
  have h: "custom_key (example_config (Some (\<lambda>r. ''tenant-42''))) example_request \<noteq> []"
    "custom_key (example_config None) example_request = []"
    "Identifier (example_config None) = ClientByIP"
    "custom_key (example_config None) ?r3 = []"
    "selected_key example_platform (example_config None) ?r3 = []"
    by (simp_all add: custom_key_def example_config_def selected_key_def ip)
  have h2: "custom_key (example_config None) ?r2 = []"
    by (simp add: custom_key_def example_config_def)
  have c: "custom_key (example_config (Some (\<lambda>r. ''tenant-42''))) example_request = ''tenant-42''"
    by (simp add: custom_key_def example_config_def)
  note t = client_key_derivation [OF h, where cfg = "example_config None" and r = example_request]
  note t2 = client_key_derivation [OF h(1) h2 h(3-5), where cfg = "example_config None"
      and r = example_request]
  from t have
    "generateClientKey example_platform (example_config (Some (\<lambda>r. ''tenant-42''))) example_request
       = custom_key (example_config (Some (\<lambda>r. ''tenant-42''))) example_request"
    "generateClientKey example_platform (example_config None) example_request
       = (if getClientIP example_platform example_request = []
          then ''unknown:'' @ getClientIP example_platform example_request
          else getClientIP example_platform example_request)"
    "generateClientKey example_platform (example_config None) ?r3
       = ''unknown:'' @ getClientIP example_platform ?r3"
    by blast+
  moreover from t2 have
    "generateClientKey example_platform (example_config None) ?r2
       = (if getClientIP example_platform ?r2 = []
          then ''unknown:'' @ getClientIP example_platform ?r2
          else getClientIP example_platform ?r2)"
    by blast
  ultimately show ?thesis by (simp add: ip c)
qed

section \<open>Status and reset of the distributed limiter\<close>

text \<open>
  Claim C8. For a key the server holds nothing for, \<open>GetStatus\<close> reports the capacity as
  the balance, with the capacity and the rate. \<open>Reset\<close> deletes the key; \<open>GetStatus\<close>
  after it answers as for a key that was never used, and the script, run after it, gives
  the result and leaves the store it would with a full bucket refilled at \<open>now\<close> under
  the key. (The calls to the server go through.)
\<close>

theorem reset_gives_full_bucket:
  assumes "store key = None"
  shows "RedisRateLimiter_GetStatus pf NoFault tnow rl key store
           = Inr (Capacity (config_redis rl), Capacity (config_redis rl),
                  RefillRate (config_redis rl))
       \<and> RedisRateLimiter_Reset NoFault key store' = (None, store'(key := None))
       \<and> RedisRateLimiter_GetStatus pf NoFault tnow rl key
           (snd (RedisRateLimiter_Reset NoFault key store'))
           = RedisRateLimiter_GetStatus pf NoFault tnow rl key store
       \<and> allow_script key cap rate n now (snd (RedisRateLimiter_Reset NoFault key store'))
           = allow_script key cap rate n now
               (store'(key \<mapsto> \<lparr>bucket_tokens = cap, bucket_last_refill = now\<rparr>))"
  using assms
  by (simp add: RedisRateLimiter_GetStatus_def RedisRateLimiter_Reset_def allow_script_def Let_def)

text \<open>The theorem at an empty store and at a store whose key holds three tokens.\<close>

theorem reset_gives_full_bucket_witness:
  "RedisRateLimiter_GetStatus example_platform NoFault 0 (NewRedisRateLimiter None) ''k'' Map.empty
     = Inr (100, 100, 10)
   \<and> RedisRateLimiter_GetStatus example_platform NoFault 0 (NewRedisRateLimiter None) ''k''
       (snd (RedisRateLimiter_Reset NoFault ''k''
               [''k'' \<mapsto> \<lparr>bucket_tokens = 3, bucket_last_refill = 0\<rparr>]))
     = Inr (100, 100, 10)"
proof -
  have h: "(Map.empty :: redis_store) ''k'' = None" by simp
  note t = reset_gives_full_bucket [OF h, where pf = example_platform and tnow = 0
      and rl = "NewRedisRateLimiter None"
      and store' = "[''k'' \<mapsto> \<lparr>bucket_tokens = 3, bucket_last_refill = 0\<rparr>]"]
  from t have
    "RedisRateLimiter_GetStatus example_platform NoFault 0 (NewRedisRateLimiter None) ''k'' Map.empty
       = Inr (Capacity (config_redis (NewRedisRateLimiter None)),
              Capacity (config_redis (NewRedisRateLimiter None)),
              RefillRate (config_redis (NewRedisRateLimiter None)))"
    "RedisRateLimiter_GetStatus example_platform NoFault 0 (NewRedisRateLimiter None) ''k''
       (snd (RedisRateLimiter_Reset NoFault ''k''
               [''k'' \<mapsto> \<lparr>bucket_tokens = 3, bucket_last_refill = 0\<rparr>]))
       = RedisRateLimiter_GetStatus example_platform NoFault 0 (NewRedisRateLimiter None) ''k''
           Map.empty"
    by blast+
  then show ?thesis by (simp add: NewRedisRateLimiter_def DefaultRateLimitConfig_def)
qed

section \<open>Requests the flags exclude\<close>

text \<open>
  Claim C9, at the input where the code departs from it. With \<open>SkipSuccessful\<close> set, a
  request that the handler answers with status 200 takes a token all the same: the bucket
  of a new client holds 99 of its 100 tokens after the request, although
  \<open>shouldCountRequest\<close> answers that the request does not count. The middleware drops
  that answer.
\<close>

theorem skipped_request_consumes:
  "buckets (limiter (fst (snd (snd
       (Middleware pf (frozen_clock t) fault example_handler (example_middleware False True)
          store w example_request))))) ''10.0.0.7''
     = Some \<lparr>capacity = 100, tokens = 99, refillRate = 10, lastRefill = t\<rparr>
   \<and> shouldCountRequest (config_mw (example_middleware False True))
        (rw_statusCode (example_handler w' example_request)) = False"
proof -
  have u: "\<not> UseRedis (config_mw (example_middleware False True))"
    by (simp add: example_fields)
  have "shouldCountRequest (config_mw (example_middleware False True))
        (rw_statusCode (example_handler w' example_request)) = False"
    by (simp add: shouldCountRequest_def rw_statusCode_def example_handler_def example_fields)
  moreover have "buckets (limiter (fst (snd (snd
       (Middleware pf (frozen_clock t) fault example_handler (example_middleware False True)
          store w example_request))))) ''10.0.0.7''
     = Some \<lparr>capacity = 100, tokens = 99, refillRate = 10, lastRefill = t\<rparr>"
    unfolding Middleware_evaluation example_key local_evaluation [OF u]
    by (simp add: example_fields check_fresh)
  ultimately show ?thesis by simp
qed

section \<open>The management endpoints\<close>

text \<open>
  Claim C10, as the code has it. For every handler state and every request body that
  decodes and holds a key that is not empty, \<open>TestRateLimit\<close> answers
  \<open>allowed = true\<close>, \<open>remaining = 99\<close>, \<open>limit = 100\<close>; for every key that is not
  empty \<open>GetClientStatus\<close> answers \<open>remaining = 95\<close>, \<open>limit = 100\<close>; neither reads
  the middleware the handler holds, and both leave it as it is. With an empty key both
  answer with \<open>http.Error\<close>, status 400 and a JSON message, and so does
  \<open>TestRateLimit\<close>, before it looks at the key, when the body does not decode.
\<close>

theorem management_endpoints_fixed:
  assumes "Key req \<noteq> []" and "key \<noteq> []"
  shows \<open>TestRateLimit pf h (Inr req)
           = ([Set_Header ''Content-Type'' ''application/json'',
               Encode \<lparr>resp_Allowed = True, resp_Remaining = 99,
                       resp_ResetTime = format_Z pf (parse_RFC3339 pf ''2025-09-19T16:30:00Z''),
                       resp_RetryAfter = Seconds 0, resp_Limit = 100\<rparr>], h)
       \<and> GetClientStatus h key
           = ([Set_Header ''Content-Type'' ''application/json'',
               Encode \<lparr>resp_Allowed = True, resp_Remaining = 95,
                       resp_ResetTime = ''2025-09-19T16:30:00Z'',
                       resp_RetryAfter = F 0 1, resp_Limit = 100\<rparr>], h)
       \<and> TestRateLimit pf h (Inr (req\<lparr>Key := []\<rparr>))
           = ([http_Error ''{"error":"Missing key","details":"key is required"}'' 400], h)
       \<and> GetClientStatus h []
           = ([http_Error ''{"error":"Missing key","details":"key query parameter is required"}''
                 400], h)
       \<and> TestRateLimit pf h (Inl err)
           = ([http_Error (''{"error":"Invalid request body","details":"'' @ err @ ''"}'') 400],
              h)\<close>
  using assms
  by (simp add: TestRateLimit_def GetClientStatus_def StatusBadRequest_def Let_def)

text \<open>The theorem at the key \<open>10.0.0.7\<close>, with the sample platform.\<close>

theorem management_endpoints_fixed_witness:
  \<open>fst (TestRateLimit example_platform \<lparr>middleware = example_middleware False False\<rparr>
          (Inr \<lparr>Key = ''10.0.0.7'', Count = 1\<rparr>))
     = [Set_Header ''Content-Type'' ''application/json'',
        Encode \<lparr>resp_Allowed = True, resp_Remaining = 99,
                resp_ResetTime = ''2025-09-19T16:30:00Z'',
                resp_RetryAfter = Seconds 0, resp_Limit = 100\<rparr>]
   \<and> fst (GetClientStatus \<lparr>middleware = example_middleware False False\<rparr> ''10.0.0.7'')
     = [Set_Header ''Content-Type'' ''application/json'',
        Encode \<lparr>resp_Allowed = True, resp_Remaining = 95,
                resp_ResetTime = ''2025-09-19T16:30:00Z'',
                resp_RetryAfter = F 0 1, resp_Limit = 100\<rparr>]\<close>
proof -
  have h: "Key \<lparr>Key = ''10.0.0.7'', Count = 1\<rparr> \<noteq> []" "''10.0.0.7'' \<noteq> []" by simp_all
  note t = management_endpoints_fixed [OF h, where pf = example_platform
      and h = "\<lparr>middleware = example_middleware False False\<rparr>"]
  from t have
    "TestRateLimit example_platform \<lparr>middleware = example_middleware False False\<rparr>
          (Inr \<lparr>Key = ''10.0.0.7'', Count = 1\<rparr>)
     = ([Set_Header ''Content-Type'' ''application/json'',
        Encode \<lparr>resp_Allowed = True, resp_Remaining = 99,
                resp_ResetTime =
                  format_Z example_platform
                    (parse_RFC3339 example_platform ''2025-09-19T16:30:00Z''),
                resp_RetryAfter = Seconds 0, resp_Limit = 100\<rparr>],
        \<lparr>middleware = example_middleware False False\<rparr>)"
    "GetClientStatus \<lparr>middleware = example_middleware False False\<rparr> ''10.0.0.7''
     = ([Set_Header ''Content-Type'' ''application/json'',
        Encode \<lparr>resp_Allowed = True, resp_Remaining = 95,
                resp_ResetTime = ''2025-09-19T16:30:00Z'',
                resp_RetryAfter = F 0 1, resp_Limit = 100\<rparr>],
        \<lparr>middleware = example_middleware False False\<rparr>)"
    by blast+
  then show ?thesis by (simp add: example_platform_def)
qed

text \<open>
  The responses are not fixed for every key, and a missing key is not the only cause of a
  400: a body that holds the key \<open>10.0.0.7\<close> and a count that is not a number does not
  decode, and \<open>TestRateLimit\<close> answers it with status 400 and the decoder's message.
\<close>

theorem management_endpoints_counterexample:
  \<open>fst (TestRateLimit example_platform \<lparr>middleware = example_middleware False False\<rparr>
          (Inl ''json: cannot unmarshal string into Go struct field RateLimitTestRequest.count of type int''))
     = [http_Error
          ''{"error":"Invalid request body","details":"json: cannot unmarshal string into Go struct field RateLimitTestRequest.count of type int"}''
          400]\<close>
  by (simp add: TestRateLimit_def StatusBadRequest_def)

end
